theory Spec2Isabelle
  imports Main "HOL-Library.AList"
begin

section \<open>Values on the wire and library functions\<close>

text \<open>
  The hub is the Socket.IO server of the repository (the server's main
  file).  Event bodies arrive as JavaScript values.  \<open>JUndefined\<close> is
  the body of an event emitted with no argument.
\<close>

datatype json =
    JUndefined
  | JNull
  | JBool bool
  | JNum int
  | JStr string
  | JArr "json list"
  | JObj "(string \<times> json) list"

text \<open>The decoded payload of a bearer token: \<open>decoded.userId\<close> and \<open>decoded.email\<close>.\<close>

record jwt_payload =
  jwt_userId :: string
  jwt_email :: "string option"

text \<open>
  Functions of the packages the server requires, whose code is not part of
  the repository.  They are parameters of the model:
  \<^item> \<open>jwt_verify token secret\<close> is \<open>jwt.verify\<close> of jsonwebtoken; \<open>None\<close>
    stands for the exception it throws on a bad signature, an expired or a
    malformed token;
  \<^item> \<open>guid\<close> is the pattern test behind Joi's \<open>string().uuid()\<close>;
  \<^item> \<open>parse_object\<close> is the conversion Joi's \<open>object()\<close> applies to a
    string that holds the text of an object (\<open>None\<close>: no conversion).
\<close>

record library =
  jwt_verify :: "string \<Rightarrow> string \<Rightarrow> jwt_payload option"
  guid :: "string \<Rightarrow> bool"
  parse_object :: "string \<Rightarrow> (string \<times> json) list option"

section \<open>Configuration\<close>

text \<open>The process environment, as far as the server reads it.\<close>

record environment =
  env_JWT_SECRET :: "string option"
  env_NODE_ENV :: "string option"

text \<open>\<open>process.env.X || default\<close>: an unset and an empty variable both give the default.\<close>

definition or_default :: "string option \<Rightarrow> string \<Rightarrow> string" where
  "or_default v d = (case v of None \<Rightarrow> d | Some s \<Rightarrow> if s = [] then d else s)"

definition JWT_SECRET :: "environment \<Rightarrow> string" where
  "JWT_SECRET env = or_default (env_JWT_SECRET env) ''claude-code-dev-secret''"

definition NODE_ENV :: "environment \<Rightarrow> string" where
  "NODE_ENV env = or_default (env_NODE_ENV env) ''development''"

section \<open>Message validation schemas\<close>

text \<open>A validation error: the path of the offending key and Joi's error code.\<close>

datatype joi_error = Joi_error string string

text \<open>A key of an object body; a key holding \<open>undefined\<close> counts as absent.\<close>

definition field :: "(string \<times> json) list \<Rightarrow> string \<Rightarrow> json option" where
  "field fs k = (case map_of fs k of Some JUndefined \<Rightarrow> None | r \<Rightarrow> r)"

text \<open>
  \<open>Joi.string()\<close> with optional \<open>min\<close> and \<open>max\<close>: the value must be a
  string, the empty string is refused, and the bounds are on the length.
\<close>

definition joi_string :: "nat option \<Rightarrow> nat option \<Rightarrow> string \<Rightarrow> json \<Rightarrow> joi_error + string" where
  "joi_string lo hi path v =
     (case v of
        JStr s \<Rightarrow>
          if s = [] then Inl (Joi_error path ''string.empty'')
          else if (case lo of None \<Rightarrow> False | Some n \<Rightarrow> length s < n)
            then Inl (Joi_error path ''string.min'')
          else if (case hi of None \<Rightarrow> False | Some n \<Rightarrow> n < length s)
            then Inl (Joi_error path ''string.max'')
          else Inr s
      | _ \<Rightarrow> Inl (Joi_error path ''string.base''))"

text \<open>\<open>.required()\<close> and \<open>.optional()\<close> on a string key.\<close>

definition required_string ::
  "nat option \<Rightarrow> nat option \<Rightarrow> (string \<times> json) list \<Rightarrow> string \<Rightarrow> joi_error + string" where
  "required_string lo hi fs k =
     (case field fs k of
        None \<Rightarrow> Inl (Joi_error k ''any.required'')
      | Some v \<Rightarrow> joi_string lo hi k v)"

definition optional_string :: "(string \<times> json) list \<Rightarrow> string \<Rightarrow> joi_error + string option" where
  "optional_string fs k =
     (case field fs k of
        None \<Rightarrow> Inr None
      | Some v \<Rightarrow> (case joi_string None None k v of Inl e \<Rightarrow> Inl e | Inr s \<Rightarrow> Inr (Some s)))"

text \<open>\<open>Joi.string().uuid().required()\<close>.\<close>

definition required_uuid :: "library \<Rightarrow> (string \<times> json) list \<Rightarrow> string \<Rightarrow> joi_error + string" where
  "required_uuid lib fs k =
     (case required_string None None fs k of
        Inl e \<Rightarrow> Inl e
      | Inr s \<Rightarrow> if guid lib s then Inr s else Inl (Joi_error k ''string.guid''))"

text \<open>\<open>Joi.string().valid(...)\<close>: one of the listed strings.\<close>

definition joi_valid :: "string list \<Rightarrow> string \<Rightarrow> json \<Rightarrow> joi_error + string" where
  "joi_valid allowed path v =
     (case v of
        JStr s \<Rightarrow> if s \<in> set allowed then Inr s else Inl (Joi_error path ''any.only'')
      | _ \<Rightarrow> Inl (Joi_error path ''any.only''))"

text \<open>
  \<open>Joi.object()\<close> on a value: \<open>undefined\<close> passes as it is (the object
  itself is not required), an object passes, a string passes when the
  library converts it, anything else is refused.
\<close>

definition joi_object :: "library \<Rightarrow> string \<Rightarrow> json \<Rightarrow> joi_error + (string \<times> json) list option" where
  "joi_object lib path v =
     (case v of
        JUndefined \<Rightarrow> Inr None
      | JObj fs \<Rightarrow> Inr (Some fs)
      | JStr s \<Rightarrow>
          (case parse_object lib s of
             Some fs \<Rightarrow> Inr (Some fs)
           | None \<Rightarrow> Inl (Joi_error path ''object.base''))
      | _ \<Rightarrow> Inl (Joi_error path ''object.base''))"

definition optional_object ::
  "library \<Rightarrow> (string \<times> json) list \<Rightarrow> string \<Rightarrow> joi_error + (string \<times> json) list option" where
  "optional_object lib fs k =
     (case field fs k of None \<Rightarrow> Inr None | Some v \<Rightarrow> joi_object lib k v)"

text \<open>An object schema with listed keys refuses every other key that holds a value.\<close>

definition unknown_keys :: "string list \<Rightarrow> (string \<times> json) list \<Rightarrow> string list" where
  "unknown_keys known fs = filter (\<lambda>k. k \<notin> set known \<and> field fs k \<noteq> None) (map fst fs)"

definition no_unknown :: "string list \<Rightarrow> (string \<times> json) list \<Rightarrow> joi_error + unit" where
  "no_unknown known fs =
     (case unknown_keys known fs of [] \<Rightarrow> Inr () | k # _ \<Rightarrow> Inl (Joi_error k ''object.unknown''))"

text \<open>The validated values of the four schemas the handlers use.\<close>

record chat_message_value =
  content :: string
  sessionId :: string
  projectId :: "string option"
  metadata :: "(string \<times> json) list option"

record terminal_command_value =
  command :: string
  sessionId_t :: string
  projectId_t :: "string option"
  workingDir :: "string option"

record file_update_value =
  filePath :: string
  content_f :: string
  projectId_f :: string
  action :: string

record tts_notification_value =
  message_n :: string
  type_n :: string
  priority :: string

text \<open>
  \<open>messageSchemas.chat_message.validate(data)\<close>.  The result \<open>Inr None\<close> is
  "no error, value \<open>undefined\<close>".
\<close>

definition validate_chat_message :: "library \<Rightarrow> json \<Rightarrow> joi_error + chat_message_value option" where
  "validate_chat_message lib data =
     (case joi_object lib [] data of
        Inl e \<Rightarrow> Inl e
      | Inr None \<Rightarrow> Inr None
      | Inr (Some fs) \<Rightarrow>
     (case required_string (Some 1) (Some 10000) fs ''content'' of
        Inl e \<Rightarrow> Inl e
      | Inr c \<Rightarrow>
     (case required_uuid lib fs ''sessionId'' of
        Inl e \<Rightarrow> Inl e
      | Inr s \<Rightarrow>
     (case optional_string fs ''projectId'' of
        Inl e \<Rightarrow> Inl e
      | Inr p \<Rightarrow>
     (case optional_object lib fs ''metadata'' of
        Inl e \<Rightarrow> Inl e
      | Inr m \<Rightarrow>
     (case no_unknown [''content'', ''sessionId'', ''projectId'', ''metadata''] fs of
        Inl e \<Rightarrow> Inl e
      | Inr _ \<Rightarrow>
          Inr (Some \<lparr>content = c, sessionId = s, projectId = p, metadata = m\<rparr>)))))))"

definition validate_terminal_command ::
  "library \<Rightarrow> json \<Rightarrow> joi_error + terminal_command_value option" where
  "validate_terminal_command lib data =
     (case joi_object lib [] data of
        Inl e \<Rightarrow> Inl e
      | Inr None \<Rightarrow> Inr None
      | Inr (Some fs) \<Rightarrow>
     (case required_string (Some 1) (Some 1000) fs ''command'' of
        Inl e \<Rightarrow> Inl e
      | Inr c \<Rightarrow>
     (case required_uuid lib fs ''sessionId'' of
        Inl e \<Rightarrow> Inl e
      | Inr s \<Rightarrow>
     (case optional_string fs ''projectId'' of
        Inl e \<Rightarrow> Inl e
      | Inr p \<Rightarrow>
     (case optional_string fs ''workingDir'' of
        Inl e \<Rightarrow> Inl e
      | Inr w \<Rightarrow>
     (case no_unknown [''command'', ''sessionId'', ''projectId'', ''workingDir''] fs of
        Inl e \<Rightarrow> Inl e
      | Inr _ \<Rightarrow>
          Inr (Some \<lparr>command = c, sessionId_t = s, projectId_t = p, workingDir = w\<rparr>)))))))"

definition validate_file_update :: "library \<Rightarrow> json \<Rightarrow> joi_error + file_update_value option" where
  "validate_file_update lib data =
     (case joi_object lib [] data of
        Inl e \<Rightarrow> Inl e
      | Inr None \<Rightarrow> Inr None
      | Inr (Some fs) \<Rightarrow>
     (case required_string None None fs ''filePath'' of
        Inl e \<Rightarrow> Inl e
      | Inr f \<Rightarrow>
     (case required_string None None fs ''content'' of
        Inl e \<Rightarrow> Inl e
      | Inr c \<Rightarrow>
     (case required_string None None fs ''projectId'' of
        Inl e \<Rightarrow> Inl e
      | Inr p \<Rightarrow>
     (case (case field fs ''action'' of
              None \<Rightarrow> Inl (Joi_error ''action'' ''any.required'')
            | Some v \<Rightarrow> joi_valid [''create'', ''update'', ''delete''] ''action'' v) of
        Inl e \<Rightarrow> Inl e
      | Inr a \<Rightarrow>
     (case no_unknown [''filePath'', ''content'', ''projectId'', ''action''] fs of
        Inl e \<Rightarrow> Inl e
      | Inr _ \<Rightarrow>
          Inr (Some \<lparr>filePath = f, content_f = c, projectId_f = p, action = a\<rparr>)))))))"

text \<open>\<open>priority\<close> is not required and defaults to \<open>normal\<close>.\<close>

definition validate_tts_notification ::
  "library \<Rightarrow> json \<Rightarrow> joi_error + tts_notification_value option" where
  "validate_tts_notification lib data =
     (case joi_object lib [] data of
        Inl e \<Rightarrow> Inl e
      | Inr None \<Rightarrow> Inr None
      | Inr (Some fs) \<Rightarrow>
     (case required_string (Some 1) (Some 500) fs ''message'' of
        Inl e \<Rightarrow> Inl e
      | Inr m \<Rightarrow>
     (case (case field fs ''type'' of
              None \<Rightarrow> Inl (Joi_error ''type'' ''any.required'')
            | Some v \<Rightarrow> joi_valid [''info'', ''success'', ''warning'', ''error''] ''type'' v) of
        Inl e \<Rightarrow> Inl e
      | Inr t \<Rightarrow>
     (case (case field fs ''priority'' of
              None \<Rightarrow> Inr ''normal''
            | Some v \<Rightarrow> joi_valid [''normal'', ''urgent''] ''priority'' v) of
        Inl e \<Rightarrow> Inl e
      | Inr p \<Rightarrow>
     (case no_unknown [''message'', ''type'', ''priority''] fs of
        Inl e \<Rightarrow> Inl e
      | Inr _ \<Rightarrow>
          Inr (Some \<lparr>message_n = m, type_n = t, priority = p\<rparr>))))))"

section \<open>State of the hub\<close>

text \<open>
  A connection after the handshake: the fields the middleware sets on the
  socket, and the address the handshake came from.
\<close>

record socket =
  id_sock :: string
  userId :: string
  userEmail :: "string option"
  isAuthenticated :: bool

record handshake =
  auth_token :: "string option"
  authorization :: "string option"
  address :: string

text \<open>
  A stored chat event.  The user's message is the validated value with
  \<open>id\<close>, \<open>userId\<close>, \<open>timestamp\<close> and \<open>platform\<close> added; the simulated
  answer also has a \<open>role\<close>.  Times are milliseconds since the epoch (the
  source prints them with \<open>toISOString\<close>, which keeps the millisecond).
\<close>

record message = chat_message_value +
  id_m :: string
  userId_m :: string
  timestamp :: int
  role :: "string option"
  platform :: string

record terminal_output =
  commandId :: string
  sessionId_o :: string
  output_o :: string
  type_o :: string
  timestamp_o :: int

record file_update = file_update_value +
  id_f :: string
  userId_f :: string
  timestamp_f :: int

text \<open>
  The notification is built before the handler first reads the validated
  value, so it exists even when that value is \<open>undefined\<close>; then it
  has no key of the value's (\<open>value_n = None\<close>).
\<close>

record tts_notification =
  id_n :: string
  value_n :: "tts_notification_value option"
  userId_n :: string
  timestamp_n :: int

text \<open>What the server emits: the event name with its payload.\<close>

datatype event =
    Error_event string "joi_error option"
  | Chat_message_event message
  | Terminal_output_event terminal_output
  | File_update_event file_update
  | Tts_notification_event tts_notification
  | Project_joined string
  | Session_history string "message list"
  | Session_joined string

text \<open>A callback waiting in \<open>setTimeout\<close>, with the variables it closes over.\<close>

datatype timer =
    Ai_response string chat_message_value
  | Terminal_output socket string "terminal_command_value option"

text \<open>
  Modelled from the spec: the limiter is \<open>RateLimiterMemory\<close> of the package
  rate-limiter-flexible, whose code is not in the repository.  The spec gives
  it a token count and a window start per source address, a fixed quota of
  admissions per duration, and a window that is rotated the first time it is
  observed to have expired.
\<close>

record rate_state =
  consumed :: nat
  window_start :: int

record state =
  connected :: "socket list"
  rooms :: "string \<Rightarrow> string set"
  activeSessions :: "(string \<times> string set) list"
  activeProjects :: "(string \<times> string set) list"
  messageHistory :: "(string \<times> message list) list"
  limiter :: "(string \<times> rate_state) list"
  stats_connections :: int
  stats_messages :: int
  timers :: "(int \<times> timer) list"
  outbox :: "(string \<times> event) list"

text \<open>
  \<open>connected\<close> and \<open>rooms\<close> are Socket.IO's own state: the open sockets in
  the order they connected, and for every room name the ids of the sockets
  that joined it.  The three \<open>Map\<close>s of the source are association lists in
  insertion order.  \<open>outbox\<close> records every delivery, oldest first, as the
  receiving socket's id and the event.
\<close>

definition initial_state :: state where
  "initial_state =
     \<lparr>connected = [], rooms = (\<lambda>_. {}), activeSessions = [], activeProjects = [],
      messageHistory = [], limiter = [], stats_connections = 0, stats_messages = 0,
      timers = [], outbox = []\<rparr>"

section \<open>Emitting\<close>

definition recipients :: "string \<Rightarrow> state \<Rightarrow> string list" where
  "recipients room st = map id_sock (filter (\<lambda>s. id_sock s \<in> rooms st room) (connected st))"

text \<open>\<open>socket.emit\<close>: to this socket alone.\<close>

definition socket_emit :: "socket \<Rightarrow> event \<Rightarrow> state \<Rightarrow> state" where
  "socket_emit sock ev st = st\<lparr>outbox := outbox st @ [(id_sock sock, ev)]\<rparr>"

text \<open>\<open>io.to(room).emit\<close>: to every socket in the room.\<close>

definition io_to_emit :: "string \<Rightarrow> event \<Rightarrow> state \<Rightarrow> state" where
  "io_to_emit room ev st = st\<lparr>outbox := outbox st @ map (\<lambda>r. (r, ev)) (recipients room st)\<rparr>"

text \<open>\<open>socket.to(room).emit\<close>: to every socket in the room but this one.\<close>

definition socket_to_emit :: "socket \<Rightarrow> string \<Rightarrow> event \<Rightarrow> state \<Rightarrow> state" where
  "socket_to_emit sock room ev st =
     st\<lparr>outbox := outbox st @
        map (\<lambda>r. (r, ev)) (filter (\<lambda>r. r \<noteq> id_sock sock) (recipients room st))\<rparr>"

definition socket_join :: "socket \<Rightarrow> string \<Rightarrow> state \<Rightarrow> state" where
  "socket_join sock room st =
     st\<lparr>rooms := (rooms st)(room := insert (id_sock sock) (rooms st room))\<rparr>"

definition setTimeout :: "timer \<Rightarrow> int \<Rightarrow> int \<Rightarrow> state \<Rightarrow> state" where
  "setTimeout cb delay now st = st\<lparr>timers := timers st @ [(now + delay, cb)]\<rparr>"

text \<open>The events one socket has received, oldest first.\<close>

definition received :: "string \<Rightarrow> state \<Rightarrow> event list" where
  "received sk st = map snd (filter (\<lambda>d. fst d = sk) (outbox st))"

section \<open>Authentication and rate limiting\<close>

text \<open>\<open>s.replace(p, r)\<close> with a string pattern: the first occurrence only.\<close>

fun replace_first :: "string \<Rightarrow> string \<Rightarrow> string \<Rightarrow> string" where
  "replace_first p r [] = (if p = [] then r else [])"
| "replace_first p r (c # cs) =
     (if take (length p) (c # cs) = p then r @ drop (length p) (c # cs)
      else c # replace_first p r cs)"

text \<open>A string is falsy when it is missing or empty.\<close>

definition truthy :: "string option \<Rightarrow> bool" where
  "truthy t = (case t of None \<Rightarrow> False | Some s \<Rightarrow> s \<noteq> [])"

text \<open>\<open>socket.handshake.auth?.token || socket.handshake.headers?.authorization\<close>\<close>

definition handshake_token :: "handshake \<Rightarrow> string option" where
  "handshake_token h = (if truthy (auth_token h) then auth_token h else authorization h)"

text \<open>
  The authentication middleware.  \<open>Inl\<close> is the message of the error handed
  to \<open>next\<close>; \<open>sk\<close> is the id Socket.IO gave the socket and \<open>uuid\<close> the
  next value of \<open>uuidv4()\<close>.
\<close>

definition authentication ::
  "library \<Rightarrow> environment \<Rightarrow> handshake \<Rightarrow> string \<Rightarrow> string \<Rightarrow> string + socket" where
  "authentication lib env h sk uuid =
     (if \<not> truthy (handshake_token h) then
        (if NODE_ENV env = ''development'' then
           Inr \<lparr>id_sock = sk, userId = ''anonymous_'' @ uuid, userEmail = None,
                isAuthenticated = False\<rparr>
         else Inl ''Authentication required'')
      else
        (case handshake_token h of
           None \<Rightarrow> Inl ''Invalid authentication token''
         | Some token \<Rightarrow>
             (case jwt_verify lib (replace_first ''Bearer '' [] token) (JWT_SECRET env) of
                None \<Rightarrow> Inl ''Invalid authentication token''
              | Some decoded \<Rightarrow>
                  Inr \<lparr>id_sock = sk, userId = jwt_userId decoded,
                       userEmail = jwt_email decoded, isAuthenticated = True\<rparr>)))"

definition points :: nat where
  "points = 100"

definition duration :: int where
  "duration = 60"

text \<open>
  Modelled from the spec: \<open>rateLimiter.consume(key)\<close>, missing with the
  package.  The answer is whether the action is admitted.  A key's window
  opens at its first action and is rotated by the first action seen after it
  expired; every action inside the window counts, the refused ones too.
\<close>

definition consume ::
  "(string \<times> rate_state) list \<Rightarrow> string \<Rightarrow> int \<Rightarrow> bool \<times> (string \<times> rate_state) list" where
  "consume rl key now =
     (case map_of rl key of
        None \<Rightarrow> (1 \<le> points, AList.update key \<lparr>consumed = 1, window_start = now\<rparr> rl)
      | Some r \<Rightarrow>
          if window_start r + duration * 1000 \<le> now
          then (1 \<le> points, AList.update key \<lparr>consumed = 1, window_start = now\<rparr> rl)
          else (consumed r + 1 \<le> points,
                AList.update key (r\<lparr>consumed := consumed r + 1\<rparr>) rl))"

text \<open>
  The body of \<open>io.on('connection')\<close> before the handlers are registered: the
  socket is open, counted, and joins its user's room.
\<close>

definition connection :: "socket \<Rightarrow> state \<Rightarrow> state" where
  "connection sock st =
     socket_join sock (''user:'' @ userId sock)
       (st\<lparr>stats_connections := stats_connections st + 1,
           connected := connected st @ [sock]\<rparr>)"

text \<open>
  A connection attempt: the authentication middleware, then the rate-limiting
  middleware, then the connection handler.  The first component is the error
  that refused the attempt, if any.
\<close>

definition connect ::
  "library \<Rightarrow> environment \<Rightarrow> handshake \<Rightarrow> string \<Rightarrow> string \<Rightarrow> int \<Rightarrow> state
     \<Rightarrow> string option \<times> state" where
  "connect lib env h sk uuid now st =
     (case authentication lib env h sk uuid of
        Inl e \<Rightarrow> (Some e, st)
      | Inr sock \<Rightarrow>
          (case consume (limiter st) (address h) now of
             (admitted, rl) \<Rightarrow>
               if admitted then (None, connection sock (st\<lparr>limiter := rl\<rparr>))
               else (Some ''Rate limit exceeded'', st\<lparr>limiter := rl\<rparr>)))"

section \<open>Event handlers\<close>

text \<open>An exception nobody catches: thrown inside a timer callback.\<close>

datatype js_error = TypeError

text \<open>\<open>xs.slice(-n)\<close>: the last \<open>n\<close> elements, all of them when there are fewer.\<close>

definition slice_last :: "nat \<Rightarrow> 'a list \<Rightarrow> 'a list" where
  "slice_last n xs = drop (length xs - n) xs"

text \<open>
  Storing a message: \<open>if (!messageHistory.has(k)) messageHistory.set(k, [])\<close>
  and then \<open>messageHistory.get(k).push(m)\<close>.  After the first step the key
  is present.
\<close>

definition history_push ::
  "string \<Rightarrow> message \<Rightarrow> (string \<times> message list) list \<Rightarrow> (string \<times> message list) list" where
  "history_push key m mh =
     (let mh1 = (if map_of mh key = None then AList.update key [] mh else mh)
      in case map_of mh1 key of
           None \<Rightarrow> mh1
         | Some msgs \<Rightarrow> AList.update key (msgs @ [m]) mh1)"

text \<open>
  \<open>socket.on('chat_message')\<close>.  \<open>uuid\<close> is the value \<open>uuidv4()\<close> returns
  and \<open>now\<close> the clock.  When the validated value is \<open>undefined\<close> the
  counter is already incremented when \<open>value.sessionId\<close> throws, and the
  \<open>catch\<close> reports to the sender.
\<close>

definition chat_message :: "library \<Rightarrow> socket \<Rightarrow> json \<Rightarrow> string \<Rightarrow> int \<Rightarrow> state \<Rightarrow> state" where
  "chat_message lib sock data uuid now st =
     (case validate_chat_message lib data of
        Inl err \<Rightarrow> socket_emit sock (Error_event ''Invalid message format'' (Some err)) st
      | Inr None \<Rightarrow>
          socket_emit sock (Error_event ''Failed to process message'' None)
            (st\<lparr>stats_messages := stats_messages st + 1\<rparr>)
      | Inr (Some v) \<Rightarrow>
          (let message =
                 \<lparr>content = content v, sessionId = sessionId v, projectId = projectId v,
                  metadata = metadata v, id_m = uuid, userId_m = userId sock,
                  timestamp = now, role = None, platform = ''websocket''\<rparr>;
               st1 = st\<lparr>stats_messages := stats_messages st + 1\<rparr>;
               sessionKey = ''session:'' @ sessionId v;
               st2 = st1\<lparr>messageHistory := history_push sessionKey message (messageHistory st1)\<rparr>;
               st3 = socket_to_emit sock sessionKey (Chat_message_event message) st2
           in setTimeout (Ai_response sessionKey v) 1000 now st3))"

text \<open>
  The callback of the handler's \<open>setTimeout\<close>: the simulated answer is
  pushed on the stored array and sent to the whole room.  When the key is
  gone \<open>messageHistory.get(sessionKey)\<close> is \<open>undefined\<close> and \<open>push\<close> throws.
\<close>

definition ai_response ::
  "string \<Rightarrow> chat_message_value \<Rightarrow> string \<Rightarrow> int \<Rightarrow> state \<Rightarrow> js_error + state" where
  "ai_response sessionKey v uuid now st =
     (let aiResponse =
            \<lparr>content = ''AI Response to: '' @ [CHR 0x22] @ take 50 (content v) @ ''...'' @ [CHR 0x22],
             sessionId = sessionId v, projectId = None, metadata = None, id_m = uuid,
             userId_m = ''claude-ai'', timestamp = now, role = Some ''assistant'',
             platform = ''claude-api''\<rparr>
      in case map_of (messageHistory st) sessionKey of
           None \<Rightarrow> Inl TypeError
         | Some msgs \<Rightarrow>
             Inr (io_to_emit sessionKey (Chat_message_event aiResponse)
                    (st\<lparr>messageHistory :=
                          AList.update sessionKey (msgs @ [aiResponse]) (messageHistory st)\<rparr>)))"

text \<open>
  \<open>socket.on('terminal_command')\<close>.  With an \<open>undefined\<close> value the timer
  is set before \<open>value.command\<close> throws in the handler.
\<close>

definition terminal_command ::
  "library \<Rightarrow> socket \<Rightarrow> json \<Rightarrow> string \<Rightarrow> int \<Rightarrow> state \<Rightarrow> state" where
  "terminal_command lib sock data uuid now st =
     (case validate_terminal_command lib data of
        Inl err \<Rightarrow> socket_emit sock (Error_event ''Invalid command format'' (Some err)) st
      | Inr None \<Rightarrow>
          socket_emit sock (Error_event ''Failed to execute command'' None)
            (setTimeout (Terminal_output sock uuid None) 500 now st)
      | Inr (Some v) \<Rightarrow> setTimeout (Terminal_output sock uuid (Some v)) 500 now st)"

text \<open>Its callback; an emit on a socket that has closed reaches nobody.\<close>

definition terminal_output_callback ::
  "socket \<Rightarrow> string \<Rightarrow> terminal_command_value option \<Rightarrow> int \<Rightarrow> state \<Rightarrow> js_error + state" where
  "terminal_output_callback sock cid value now st =
     (case value of
        None \<Rightarrow> Inl TypeError
      | Some v \<Rightarrow>
          (let out =
                 \<lparr>commandId = cid, sessionId_o = sessionId_t v,
                  output_o = ''Executed: '' @ command v @ [CHR 0x0A]
                     @ ''Output: Command completed successfully'',
                  type_o = ''success'', timestamp_o = now\<rparr>
           in Inr (if sock \<in> set (connected st)
                   then socket_emit sock (Terminal_output_event out) st else st)))"

text \<open>\<open>socket.on('file_update')\<close>\<close>

definition file_update_handler ::
  "library \<Rightarrow> socket \<Rightarrow> json \<Rightarrow> string \<Rightarrow> int \<Rightarrow> state \<Rightarrow> state" where
  "file_update_handler lib sock data uuid now st =
     (case validate_file_update lib data of
        Inl err \<Rightarrow> socket_emit sock (Error_event ''Invalid file update format'' (Some err)) st
      | Inr None \<Rightarrow> socket_emit sock (Error_event ''Failed to update file'' None) st
      | Inr (Some v) \<Rightarrow>
          (let update =
                 \<lparr>filePath = filePath v, content_f = content_f v, projectId_f = projectId_f v,
                  action = action v, id_f = uuid, userId_f = userId sock, timestamp_f = now\<rparr>
           in socket_to_emit sock (''project:'' @ projectId_f v) (File_update_event update) st))"

text \<open>
  \<open>socket.on('tts_notification')\<close>.  The emit to the user's room comes
  before the first read of the value, so it also happens when the value is
  \<open>undefined\<close>, followed by the error of the \<open>catch\<close>.
\<close>

definition tts_notification_handler ::
  "library \<Rightarrow> socket \<Rightarrow> json \<Rightarrow> string \<Rightarrow> int \<Rightarrow> state \<Rightarrow> state" where
  "tts_notification_handler lib sock data uuid now st =
     (case validate_tts_notification lib data of
        Inl err \<Rightarrow>
          socket_emit sock (Error_event ''Invalid TTS notification format'' (Some err)) st
      | Inr value \<Rightarrow>
          (let notification =
                 \<lparr>id_n = uuid, value_n = value, userId_n = userId sock, timestamp_n = now\<rparr>;
               st1 = io_to_emit (''user:'' @ userId sock) (Tts_notification_event notification) st
           in case value of
                None \<Rightarrow> socket_emit sock (Error_event ''Failed to send TTS notification'' None) st1
              | Some v \<Rightarrow> st1))"

text \<open>
  Membership in a registry: \<open>if (!m.has(k)) m.set(k, new Set())\<close> and then
  \<open>m.get(k).add(user)\<close>.
\<close>

definition track :: "string \<Rightarrow> string \<Rightarrow> (string \<times> string set) list \<Rightarrow> (string \<times> string set) list" where
  "track k user m =
     (let m1 = (if map_of m k = None then AList.update k {} m else m)
      in case map_of m1 k of
           None \<Rightarrow> m1
         | Some users \<Rightarrow> AList.update k (insert user users) m1)"

text \<open>\<open>socket.on('join_project')\<close>; the empty id is the falsy one.\<close>

definition join_project :: "socket \<Rightarrow> string \<Rightarrow> state \<Rightarrow> state" where
  "join_project sock projectId' st =
     (if projectId' = [] then socket_emit sock (Error_event ''Project ID is required'' None) st
      else
        (let st1 = socket_join sock (''project:'' @ projectId') st;
             st2 = st1\<lparr>activeProjects := track projectId' (userId sock) (activeProjects st1)\<rparr>
         in socket_emit sock (Project_joined projectId') st2))"

text \<open>\<open>socket.on('join_session')\<close>\<close>

definition join_session :: "socket \<Rightarrow> string \<Rightarrow> state \<Rightarrow> state" where
  "join_session sock sessionId' st =
     (if sessionId' = [] then socket_emit sock (Error_event ''Session ID is required'' None) st
      else
        (let st1 = socket_join sock (''session:'' @ sessionId') st;
             st2 = st1\<lparr>activeSessions := track sessionId' (userId sock) (activeSessions st1)\<rparr>;
             sessionHistory =
               (case map_of (messageHistory st2) (''session:'' @ sessionId') of
                  None \<Rightarrow> []
                | Some msgs \<Rightarrow> msgs);
             st3 = socket_emit sock (Session_history sessionId' (slice_last 50 sessionHistory)) st2
         in socket_emit sock (Session_joined sessionId') st3))"

text \<open>
  The body of the two \<open>forEach\<close> loops of the disconnect handler: the user
  is deleted from every set that has it, and an entry whose set is empty
  after that is deleted from the map.
\<close>

fun remove_user :: "string \<Rightarrow> (string \<times> string set) list \<Rightarrow> (string \<times> string set) list" where
  "remove_user user [] = []"
| "remove_user user ((k, users) # rest) =
     (if user \<in> users then
        (if users - {user} = {} then remove_user user rest
         else (k, users - {user}) # remove_user user rest)
      else (k, users) # remove_user user rest)"

text \<open>
  \<open>socket.on('disconnect')\<close>.  Socket.IO has closed the socket and taken it
  out of its rooms when the handler runs.
\<close>

definition disconnect :: "socket \<Rightarrow> state \<Rightarrow> state" where
  "disconnect sock st =
     st\<lparr>connected := filter (\<lambda>s. id_sock s \<noteq> id_sock sock) (connected st),
        rooms := (\<lambda>r. rooms st r - {id_sock sock}),
        stats_connections := max 0 (stats_connections st - 1),
        activeSessions := remove_user (userId sock) (activeSessions st),
        activeProjects := remove_user (userId sock) (activeProjects st)\<rparr>"

text \<open>
  The hourly cleanup: messages stamped at or before the cutoff go, and a key
  left with no message is deleted.
\<close>

fun cleanup :: "int \<Rightarrow> (string \<times> message list) list \<Rightarrow> (string \<times> message list) list" where
  "cleanup cutoffTime [] = []"
| "cleanup cutoffTime ((k, messages) # rest) =
     (let filtered = filter (\<lambda>msg. timestamp msg > cutoffTime) messages
      in if length filtered = 0 then cleanup cutoffTime rest
         else (k, filtered) # cleanup cutoffTime rest)"

definition history_cleanup :: "int \<Rightarrow> state \<Rightarrow> state" where
  "history_cleanup now st =
     st\<lparr>messageHistory := cleanup (now - 24 * 60 * 60 * 1000) (messageHistory st)\<rparr>"

text \<open>
  The timer that fires next: the one due first, the older of two due at the
  same time.  \<open>run_timer\<close> runs it once its time has come.
\<close>

fun next_due :: "(int \<times> timer) list \<Rightarrow> (int \<times> timer) option" where
  "next_due [] = None"
| "next_due (x # xs) =
     (case next_due xs of
        None \<Rightarrow> Some x
      | Some y \<Rightarrow> if fst y < fst x then Some y else Some x)"

definition run_timer :: "string \<Rightarrow> int \<Rightarrow> state \<Rightarrow> js_error + state" where
  "run_timer uuid now st =
     (case next_due (timers st) of
        None \<Rightarrow> Inr st
      | Some (due, cb) \<Rightarrow>
          if now < due then Inr st
          else
            (let st1 = st\<lparr>timers := remove1 (due, cb) (timers st)\<rparr>
             in case cb of
                  Ai_response sessionKey v \<Rightarrow> ai_response sessionKey v uuid now st1
                | Terminal_output sock cid value \<Rightarrow>
                    terminal_output_callback sock cid value now st1))"

text \<open>
  One socket sending the same body several times in a row, each time with the
  next id of \<open>uuidv4()\<close> and the clock reading that goes with it.
\<close>

fun send_all :: "library \<Rightarrow> socket \<Rightarrow> json \<Rightarrow> (string \<times> int) list \<Rightarrow> state \<Rightarrow> state" where
  "send_all lib sock data [] st = st"
| "send_all lib sock data ((uuid, now) # rest) st =
     send_all lib sock data rest (chat_message lib sock data uuid now st)"

section \<open>A concrete deployment\<close>

text \<open>
  Values for the library parameters and a small session, used to run the
  model: a verifier that knows one token, a 36-character test for session
  ids, and no conversion of strings into objects.
\<close>

definition hex_char :: "char \<Rightarrow> bool" where
  "hex_char c = (c \<in> set ''0123456789abcdefABCDEF'')"

definition sample_guid :: "string \<Rightarrow> bool" where
  "sample_guid s = (length s = 36 \<and> list_all (\<lambda>c. hex_char c \<or> c = CHR ''-'') s)"

definition sample_library :: library where
  "sample_library =
     \<lparr>jwt_verify = (\<lambda>token secret.
          if token = ''alice-token'' \<and> secret = ''claude-code-dev-secret''
          then Some \<lparr>jwt_userId = ''alice'', jwt_email = Some ''alice@example.org''\<rparr>
          else None),
      guid = sample_guid,
      parse_object = (\<lambda>s. None)\<rparr>"

definition default_env :: environment where
  "default_env = \<lparr>env_JWT_SECRET = None, env_NODE_ENV = None\<rparr>"

definition production_env :: environment where
  "production_env = \<lparr>env_JWT_SECRET = None, env_NODE_ENV = Some ''production''\<rparr>"

definition no_credential :: handshake where
  "no_credential = \<lparr>auth_token = None, authorization = None, address = ''10.0.0.1''\<rparr>"

definition bad_credential :: handshake where
  "bad_credential =
     \<lparr>auth_token = None, authorization = Some ''Bearer expired-token'', address = ''10.0.0.1''\<rparr>"

definition s1 :: string where
  "s1 = ''123e4567-e89b-42d3-a456-426614174000''"

definition sock_A :: socket where
  "sock_A = \<lparr>id_sock = ''A'', userId = ''alice'', userEmail = None, isAuthenticated = False\<rparr>"

definition sock_A2 :: socket where
  "sock_A2 = \<lparr>id_sock = ''A2'', userId = ''alice'', userEmail = None, isAuthenticated = False\<rparr>"

definition sock_B :: socket where
  "sock_B = \<lparr>id_sock = ''B'', userId = ''bob'', userEmail = None, isAuthenticated = False\<rparr>"

definition sock_C :: socket where
  "sock_C = \<lparr>id_sock = ''C'', userId = ''carol'', userEmail = None, isAuthenticated = False\<rparr>"

text \<open>The body \<open>{content: "hi", sessionId: s1}\<close> and a body with no key.\<close>

definition hi :: json where
  "hi = JObj [(''content'', JStr ''hi''), (''sessionId'', JStr s1)]"

definition empty_body :: json where
  "empty_body = JObj []"

definition hi_value :: chat_message_value where
  "hi_value = \<lparr>content = ''hi'', sessionId = s1, projectId = None, metadata = None\<rparr>"

text \<open>The message stored for \<open>hi\<close> from \<open>A\<close>, and the answer to it.\<close>

definition hi_message :: "string \<Rightarrow> int \<Rightarrow> message" where
  "hi_message uuid now =
     \<lparr>content = ''hi'', sessionId = s1, projectId = None, metadata = None, id_m = uuid,
      userId_m = ''alice'', timestamp = now, role = None, platform = ''websocket''\<rparr>"

definition hi_answer :: "string \<Rightarrow> int \<Rightarrow> message" where
  "hi_answer uuid now =
     \<lparr>content = ''AI Response to: '' @ [CHR 0x22] @ ''hi'' @ ''...'' @ [CHR 0x22],
      sessionId = s1, projectId = None, metadata = None, id_m = uuid,
      userId_m = ''claude-ai'', timestamp = now, role = Some ''assistant'',
      platform = ''claude-api''\<rparr>"

text \<open>\<open>A\<close> and \<open>B\<close> are connected and both have joined session \<open>s1\<close>.\<close>

definition two_members :: state where
  "two_members =
     join_session sock_B s1 (join_session sock_A s1
       (connection sock_B (connection sock_A initial_state)))"

text \<open>\<open>A\<close> alone is connected and has joined session \<open>s1\<close> and project \<open>p1\<close>.\<close>

definition one_member :: state where
  "one_member =
     join_project sock_A ''p1'' (join_session sock_A s1 (connection sock_A initial_state))"

text \<open>Two connections of the same user, both in session \<open>s1\<close>.\<close>

definition two_devices :: state where
  "two_devices =
     join_session sock_A2 s1 (join_session sock_A s1
       (connection sock_A2 (connection sock_A initial_state)))"

text \<open>101 ids with their clock readings, one millisecond apart.\<close>

definition burst :: "(string \<times> int) list" where
  "burst = map (\<lambda>n. (replicate (Suc n) CHR ''x'', 1000 + int n)) [0..<101]"

section \<open>Facts about the maps and the outbox\<close>

lemmas sample_defs =
  sample_library_def sample_guid_def hex_char_def default_env_def production_env_def
  no_credential_def bad_credential_def s1_def sock_A_def sock_A2_def sock_B_def sock_C_def
  hi_def empty_body_def hi_value_def hi_message_def hi_answer_def two_members_def
  one_member_def two_devices_def

lemmas validate_defs =
  validate_chat_message_def validate_terminal_command_def validate_file_update_def
  validate_tts_notification_def joi_object_def required_string_def required_uuid_def
  optional_string_def optional_object_def no_unknown_def unknown_keys_def field_def
  joi_string_def joi_valid_def

lemmas handler_defs =
  connection_def socket_join_def join_session_def join_project_def track_def socket_emit_def
  slice_last_def initial_state_def received_def recipients_def Let_def

lemma map_of_track:
  "map_of (track k u m) k' =
     (if k' = k then Some (insert u (case map_of m k of None \<Rightarrow> {} | Some us \<Rightarrow> us))
      else map_of m k')"
  by (simp add: track_def Let_def AList.update_conv' split: option.splits)

lemma track_idem: "track k u (track k u m) = track k u m"
  by (simp add: track_def Let_def AList.update_conv' split: option.splits)

lemma distinct_track: "distinct (map fst m) \<Longrightarrow> distinct (map fst (track k u m))"
  by (simp add: track_def Let_def AList.distinct_update split: option.splits)

lemma map_of_history_push:
  "map_of (history_push k e mh) k' =
     (if k' = k then Some ((case map_of mh k of None \<Rightarrow> [] | Some h \<Rightarrow> h) @ [e])
      else map_of mh k')"
  by (simp add: history_push_def Let_def AList.update_conv' split: option.splits)

lemma map_of_foldl_push:
  "map_of (foldl (\<lambda>mh e. history_push key e mh) mh events) k =
     (if k = key \<and> events \<noteq> []
      then Some ((case map_of mh key of None \<Rightarrow> [] | Some h \<Rightarrow> h) @ events)
      else map_of mh k)"
proof (induction events arbitrary: mh)
  case Nil
  then show ?case by simp
next
  case (Cons e events)
  show ?case
    by (simp add: Cons.IH map_of_history_push)
qed

lemma slice_last_append:
  "n \<le> length ys \<Longrightarrow> slice_last n (xs @ ys) = drop (length ys - n) ys"
  by (simp add: slice_last_def)

lemma deliveries_to:
  "distinct rs \<Longrightarrow>
   map snd (filter (\<lambda>d. fst d = c) (map (\<lambda>r. (r, ev)) rs)) = (if c \<in> set rs then [ev] else [])"
  by (induction rs) auto

lemma deliveries_none:
  "c \<notin> set rs \<Longrightarrow> filter (\<lambda>d. fst d = c) (map (\<lambda>r. (r, ev)) rs) = []"
  by (induction rs) auto

lemma distinct_recipients:
  "distinct (map id_sock (connected st)) \<Longrightarrow> distinct (recipients room st)"
  by (simp add: recipients_def distinct_map_filter)

text \<open>The disconnect loop, entry by entry.\<close>

lemma remove_user_keys: "fst ` set (remove_user u m) \<subseteq> fst ` set m"
  by (induction u m rule: remove_user.induct) auto

lemma map_of_remove_user:
  "distinct (map fst m) \<Longrightarrow>
   map_of (remove_user u m) k =
     (case map_of m k of
        None \<Rightarrow> None
      | Some us \<Rightarrow> if u \<in> us then (if us = {u} then None else Some (us - {u})) else Some us)"
proof (induction u m rule: remove_user.induct)
  case (1 user)
  then show ?case by simp
next
  case (2 user k' users rest)
  have notin: "k' \<notin> fst ` set (remove_user user rest)"
    using "2.prems" remove_user_keys[of user rest] by auto
  then have none: "map_of (remove_user user rest) k' = None"
    by (simp add: map_of_eq_None_iff)
  from 2 show ?case
    by (auto simp add: none split: option.splits)
qed

lemma distinct_remove_user:
  "distinct (map fst m) \<Longrightarrow> distinct (map fst (remove_user u m))"
proof (induction u m rule: remove_user.induct)
  case (1 user)
  then show ?case by simp
next
  case (2 user k users rest)
  then show ?case using remove_user_keys[of user rest] by auto
qed

section \<open>Facts about the chat handler\<close>

lemma validate_chat_message_sessionId:
  "validate_chat_message lib data = Inr (Some v) \<Longrightarrow> sessionId v \<noteq> []"
  by (auto simp add: validate_chat_message_def required_uuid_def required_string_def joi_string_def
      split: sum.splits option.splits json.splits if_splits)

text \<open>The state after a valid chat message.\<close>

lemma chat_message_valid:
  assumes "validate_chat_message lib data = Inr (Some v)"
  shows "chat_message lib a data uuid now st =
     st\<lparr>stats_messages := stats_messages st + 1,
        messageHistory :=
          history_push (''session:'' @ sessionId v)
            \<lparr>content = content v, sessionId = sessionId v, projectId = projectId v,
             metadata = metadata v, id_m = uuid, userId_m = userId a,
             timestamp = now, role = None, platform = ''websocket''\<rparr> (messageHistory st),
        outbox := outbox st @
          map (\<lambda>r. (r, Chat_message_event
                 \<lparr>content = content v, sessionId = sessionId v, projectId = projectId v,
                  metadata = metadata v, id_m = uuid, userId_m = userId a,
                  timestamp = now, role = None, platform = ''websocket''\<rparr>))
            (filter (\<lambda>r. r \<noteq> id_sock a) (recipients (''session:'' @ sessionId v) st)),
        timers := timers st @ [(now + 1000, Ai_response (''session:'' @ sessionId v) v)]\<rparr>"
  using assms
  by (simp add: chat_message_def Let_def socket_to_emit_def setTimeout_def recipients_def)

text \<open>The state after a valid chat message and the callback of the timer it set.\<close>

lemma chat_answer_state:
  fixes a :: socket and uuid uuid' :: string and now now' :: int and st :: state
    and v :: chat_message_value
  assumes valid: "validate_chat_message lib data = Inr (Some v)"
  defines "key \<equiv> ''session:'' @ sessionId v"
    and "msg \<equiv> \<lparr>content = content v, sessionId = sessionId v, projectId = projectId v,
                  metadata = metadata v, id_m = uuid, userId_m = userId a,
                  timestamp = now, role = None, platform = ''websocket''\<rparr>"
    and "ai \<equiv> \<lparr>content = ''AI Response to: '' @ [CHR 0x22] @ take 50 (content v) @ ''...'' @ [CHR 0x22],
             sessionId = sessionId v, projectId = None, metadata = None, id_m = uuid',
             userId_m = ''claude-ai'', timestamp = now', role = Some ''assistant'',
             platform = ''claude-api''\<rparr>"
  defines "old \<equiv> (case map_of (messageHistory st) key of None \<Rightarrow> [] | Some h \<Rightarrow> h)"
  shows "ai_response key v uuid' now' (chat_message lib a data uuid now st) =
     Inr (st\<lparr>stats_messages := stats_messages st + 1,
        messageHistory := AList.update key (old @ [msg, ai]) (history_push key msg (messageHistory st)),
        outbox := outbox st @
          (map (\<lambda>r. (r, Chat_message_event msg)) (filter (\<lambda>r. r \<noteq> id_sock a) (recipients key st))
           @ map (\<lambda>r. (r, Chat_message_event ai)) (recipients key st)),
        timers := timers st @ [(now + 1000, Ai_response key v)]\<rparr>)"
  by (simp add: chat_message_valid[OF valid] ai_response_def Let_def
      map_of_history_push old_def ai_def msg_def io_to_emit_def recipients_def key_def)

text \<open>The state after a valid chat message and its answer, when no other timer waits.\<close>

lemma chat_answer_run:
  fixes a :: socket and uuid uuid' :: string and now now' :: int and st :: state
    and v :: chat_message_value
  assumes valid: "validate_chat_message lib data = Inr (Some v)"
    and idle: "timers st = []"
    and due: "now + 1000 \<le> now'"
  defines "key \<equiv> ''session:'' @ sessionId v"
    and "msg \<equiv> \<lparr>content = content v, sessionId = sessionId v, projectId = projectId v,
                  metadata = metadata v, id_m = uuid, userId_m = userId a,
                  timestamp = now, role = None, platform = ''websocket''\<rparr>"
    and "ai \<equiv> \<lparr>content = ''AI Response to: '' @ [CHR 0x22] @ take 50 (content v) @ ''...'' @ [CHR 0x22],
             sessionId = sessionId v, projectId = None, metadata = None, id_m = uuid',
             userId_m = ''claude-ai'', timestamp = now', role = Some ''assistant'',
             platform = ''claude-api''\<rparr>"
  defines "old \<equiv> (case map_of (messageHistory st) key of None \<Rightarrow> [] | Some h \<Rightarrow> h)"
  shows "run_timer uuid' now' (chat_message lib a data uuid now st) =
     Inr (st\<lparr>stats_messages := stats_messages st + 1,
        messageHistory := AList.update key (old @ [msg, ai]) (history_push key msg (messageHistory st)),
        outbox := outbox st @
          (map (\<lambda>r. (r, Chat_message_event msg)) (filter (\<lambda>r. r \<noteq> id_sock a) (recipients key st))
           @ map (\<lambda>r. (r, Chat_message_event ai)) (recipients key st)),
        timers := []\<rparr>)"
  using due idle
  by (simp add: chat_message_valid[OF valid] run_timer_def ai_response_def Let_def
      map_of_history_push old_def ai_def msg_def io_to_emit_def recipients_def key_def)

text \<open>The chat handler leaves the rooms and the rate limiter as they are.\<close>

lemma recipients_chat_message [simp]:
  "recipients room (chat_message lib a data uuid now st) = recipients room st"
  by (simp add: chat_message_def recipients_def socket_emit_def socket_to_emit_def setTimeout_def
      Let_def split: sum.splits option.splits)

lemma limiter_chat_message [simp]:
  "limiter (chat_message lib a data uuid now st) = limiter st"
  by (simp add: chat_message_def socket_emit_def socket_to_emit_def setTimeout_def
      Let_def split: sum.splits option.splits)

lemma limiter_send_all: "limiter (send_all lib a data ins st) = limiter st"
  by (induction ins arbitrary: st) auto

lemma recipients_send_all: "recipients room (send_all lib a data ins st) = recipients room st"
  by (induction ins arbitrary: st) auto

lemma history_send_all:
  assumes valid: "validate_chat_message lib data = Inr (Some v)"
  shows "messageHistory (send_all lib a data ins st) =
     foldl (\<lambda>mh e. history_push (''session:'' @ sessionId v) e mh) (messageHistory st)
       (map (\<lambda>(uuid, now).
              \<lparr>content = content v, sessionId = sessionId v, projectId = projectId v,
               metadata = metadata v, id_m = uuid, userId_m = userId a,
               timestamp = now, role = None, platform = ''websocket''\<rparr>) ins)"
  by (induction ins arbitrary: st) (auto simp add: chat_message_valid[OF valid])

lemma outbox_send_all:
  assumes valid: "validate_chat_message lib data = Inr (Some v)"
  shows "outbox (send_all lib a data ins st) =
     outbox st @ concat (map (\<lambda>(uuid, now).
        map (\<lambda>r. (r, Chat_message_event
              \<lparr>content = content v, sessionId = sessionId v, projectId = projectId v,
               metadata = metadata v, id_m = uuid, userId_m = userId a,
               timestamp = now, role = None, platform = ''websocket''\<rparr>))
          (filter (\<lambda>r. r \<noteq> id_sock a) (recipients (''session:'' @ sessionId v) st))) ins)"
proof (induction ins arbitrary: st)
  case Nil
  then show ?case by simp
next
  case (Cons x ins)
  obtain uuid now where x: "x = (uuid, now)" by (cases x)
  have r: "recipients (''session:'' @ sessionId v) (chat_message lib a data uuid now st)
         = recipients (''session:'' @ sessionId v) st" by simp
  show ?case
    unfolding x send_all.simps Cons.IH r
    by (simp add: chat_message_valid[OF valid])
qed

lemma received_send_all:
  assumes valid: "validate_chat_message lib data = Inr (Some v)"
    and ids: "distinct (map id_sock (connected st))"
  shows "received c (send_all lib a data ins st) =
     received c st @
       (if c \<in> set (recipients (''session:'' @ sessionId v) st) \<and> c \<noteq> id_sock a
        then map (\<lambda>(uuid, now). Chat_message_event
              \<lparr>content = content v, sessionId = sessionId v, projectId = projectId v,
               metadata = metadata v, id_m = uuid, userId_m = userId a,
               timestamp = now, role = None, platform = ''websocket''\<rparr>) ins
        else [])"
proof -
  have d: "distinct (filter (\<lambda>r. r \<noteq> id_sock a) (recipients (''session:'' @ sessionId v) st))"
    using distinct_recipients[OF ids] by simp
  have "map snd (filter (\<lambda>d. fst d = c) (concat (map (\<lambda>(uuid, now).
        map (\<lambda>r. (r, Chat_message_event (f uuid now))) rs) ins)))
      = (if c \<in> set rs then map (\<lambda>(uuid, now). Chat_message_event (f uuid now)) ins else [])"
    if "distinct rs" for rs :: "string list" and f :: "string \<Rightarrow> int \<Rightarrow> message"
    using that by (induction ins) (auto simp add: deliveries_to deliveries_none)
  from this[OF d] show ?thesis
    by (simp add: received_def outbox_send_all[OF valid])
qed

text \<open>
  Where the limiter is consulted: a handshake that authenticates and finds
  its address's quota used up inside the window is refused, and nothing but
  the limiter's count changes.
\<close>

lemma connect_rate_limited:
  assumes "authentication lib env h sk uuid = Inr sock"
    and "map_of (limiter st) (address h) = Some r"
    and "now < window_start r + duration * 1000"
    and "points \<le> consumed r"
  shows "connect lib env h sk uuid now st =
     (Some ''Rate limit exceeded'',
      st\<lparr>limiter := AList.update (address h) (r\<lparr>consumed := consumed r + 1\<rparr>) (limiter st)\<rparr>)"
  using assms by (simp add: connect_def consume_def)

section \<open>The sample session, evaluated\<close>

lemma hi_valid: "validate_chat_message sample_library hi = Inr (Some hi_value)"
  by (simp add: sample_defs validate_defs)

lemma s1_nonempty: "s1 \<noteq> []"
  by (simp add: s1_def)

lemma two_members_outbox:
  "outbox two_members =
     [(''A'', Session_history s1 []), (''A'', Session_joined s1),
      (''B'', Session_history s1 []), (''B'', Session_joined s1)]"
  by (simp add: sample_defs handler_defs)

lemma two_members_recipients: "recipients (''session:'' @ s1) two_members = [''A'', ''B'']"
  by (simp add: sample_defs handler_defs)

lemma two_members_history: "messageHistory two_members = []"
  by (simp add: sample_defs handler_defs)

lemma two_members_connected: "connected two_members = [sock_A, sock_B]"
  by (simp add: sample_defs handler_defs)

lemma two_members_timers: "timers two_members = []"
  by (simp add: sample_defs handler_defs)

lemma two_members_received:
  "received ''A'' two_members = [Session_history s1 [], Session_joined s1]"
  "received ''B'' two_members = [Session_history s1 [], Session_joined s1]"
  "received ''C'' two_members = []"
  by (simp_all add: received_def two_members_outbox)

lemma two_devices_state:
  "activeSessions two_devices = [(s1, {''alice''})]"
  "activeProjects two_devices = []"
  "connected two_devices = [sock_A, sock_A2]"
  "rooms two_devices (''session:'' @ s1) = {''A'', ''A2''}"
  by (auto simp add: sample_defs handler_defs)

lemma one_member_state:
  "activeSessions one_member = [(s1, {''alice''})]"
  "activeProjects one_member = [(''p1'', {''alice''})]"
  "messageHistory one_member = []"
  "outbox one_member =
     [(''A'', Session_history s1 []), (''A'', Session_joined s1), (''A'', Project_joined ''p1'')]"
  by (auto simp add: sample_defs handler_defs)

lemma one_member_recipients: "recipients (''session:'' @ s1) one_member = [''A'']"
  by (simp add: sample_defs handler_defs)

lemma after_hi_state:
  "activeSessions (chat_message sample_library sock_A hi ''id-1'' 1000 one_member) = [(s1, {''alice''})]"
  "activeProjects (chat_message sample_library sock_A hi ''id-1'' 1000 one_member) = [(''p1'', {''alice''})]"
  "messageHistory (chat_message sample_library sock_A hi ''id-1'' 1000 one_member)
     = [(''session:'' @ s1, [hi_message ''id-1'' 1000])]"
  "received ''C'' (chat_message sample_library sock_A hi ''id-1'' 1000 one_member) = []"
  by (simp_all add: chat_message_valid[OF hi_valid] one_member_state history_push_def received_def
      one_member_recipients[simplified] hi_value_def hi_message_def sock_A_def)

section \<open>Chat message, answer and replay\<close>

text \<open>
  Claim C1, as the code has it.  A connection \<open>a\<close> sends a valid chat
  message for a session; the handler sets the timer of the answer, and the
  timer's callback runs.  Then every connection in the session's room other
  than \<open>a\<close> has received the message and after it the answer; \<open>a\<close>
  itself, when it is in the room, has received the answer only (the message
  goes out with \<open>socket.to\<close>, which leaves the sender out); a connection
  outside the room has received nothing.  The session's history has grown by
  the message and the answer, in this order.  A join of the session that
  comes next adds two deliveries to the outbox and no other, both addressed
  to the joining connection: the last 50 entries of that history, and the
  confirmation.
\<close>

theorem chat_then_answer:
  fixes a :: socket and uuid uuid' :: string and now now' :: int and st :: state
    and v :: chat_message_value
  assumes valid: "validate_chat_message lib data = Inr (Some v)"
    and ids: "distinct (map id_sock (connected st))"
  defines "key \<equiv> ''session:'' @ sessionId v"
    and "msg \<equiv> \<lparr>content = content v, sessionId = sessionId v, projectId = projectId v,
                  metadata = metadata v, id_m = uuid, userId_m = userId a,
                  timestamp = now, role = None, platform = ''websocket''\<rparr>"
    and "ai \<equiv> \<lparr>content = ''AI Response to: '' @ [CHR 0x22] @ take 50 (content v) @ ''...'' @ [CHR 0x22],
             sessionId = sessionId v, projectId = None, metadata = None, id_m = uuid',
             userId_m = ''claude-ai'', timestamp = now', role = Some ''assistant'',
             platform = ''claude-api''\<rparr>"
  defines "old \<equiv> (case map_of (messageHistory st) key of None \<Rightarrow> [] | Some h \<Rightarrow> h)"
  shows "timers (chat_message lib a data uuid now st) = timers st @ [(now + 1000, Ai_response key v)]
    \<and> (\<exists>st'. ai_response key v uuid' now' (chat_message lib a data uuid now st) = Inr st'
      \<and> (\<forall>c. received c st' = received c st @
            (if c \<in> set (recipients key st)
             then (if c = id_sock a then [Chat_message_event ai]
                   else [Chat_message_event msg, Chat_message_event ai])
             else []))
      \<and> map_of (messageHistory st') key = Some (old @ [msg, ai])
      \<and> (\<forall>j. outbox (join_session j (sessionId v) st') =
            outbox st' @
              [(id_sock j, Session_history (sessionId v) (slice_last 50 (old @ [msg, ai]))),
               (id_sock j, Session_joined (sessionId v))]))"
proof -
  have dr: "distinct (recipients key st)" using ids by (rule distinct_recipients)
  have tm: "timers (chat_message lib a data uuid now st) = timers st @ [(now + 1000, Ai_response key v)]"
    by (simp add: chat_message_valid[OF valid] key_def)
  define st' where "st' = st\<lparr>stats_messages := stats_messages st + 1,
        messageHistory := AList.update key (old @ [msg, ai]) (history_push key msg (messageHistory st)),
        outbox := outbox st @ (map (\<lambda>r. (r, Chat_message_event msg)) (filter (\<lambda>r. r \<noteq> id_sock a) (recipients key st))
           @ map (\<lambda>r. (r, Chat_message_event ai)) (recipients key st)),
        timers := timers st @ [(now + 1000, Ai_response key v)]\<rparr>"
  have run: "ai_response key v uuid' now' (chat_message lib a data uuid now st) = Inr st'"
    unfolding st'_def key_def msg_def ai_def old_def
    by (rule chat_answer_state[OF valid])
  have rec: "received c st' = received c st @
          (if c \<in> set (recipients key st)
           then (if c = id_sock a then [Chat_message_event ai]
                 else [Chat_message_event msg, Chat_message_event ai])
           else [])" for c
  proof -
    have "received c st' = received c st @
        map snd (filter (\<lambda>d. fst d = c) (map (\<lambda>r. (r, Chat_message_event msg)) (filter (\<lambda>r. r \<noteq> id_sock a) (recipients key st))))
        @ map snd (filter (\<lambda>d. fst d = c) (map (\<lambda>r. (r, Chat_message_event ai)) (recipients key st)))"
      by (simp add: st'_def received_def)
    then show ?thesis
      using dr by (simp add: deliveries_to)
  qed
  have hist: "map_of (messageHistory st') key = Some (old @ [msg, ai])"
    by (simp add: st'_def AList.update_conv')
  have sid: "sessionId v \<noteq> []" using valid by (rule validate_chat_message_sessionId)
  have join: "outbox (join_session j (sessionId v) st') =
            outbox st' @
              [(id_sock j, Session_history (sessionId v) (slice_last 50 (old @ [msg, ai]))),
               (id_sock j, Session_joined (sessionId v))]" for j
    using sid hist
    by (simp add: join_session_def Let_def socket_emit_def socket_join_def key_def)
  from tm run rec hist join show ?thesis by blast
qed

text \<open>
  The theorem at work: \<open>A\<close> and \<open>B\<close> are in session \<open>s1\<close>, \<open>A\<close> sends
  \<open>hi\<close>.  \<open>B\<close> has the message and the answer after its own join events;
  \<open>C\<close>, joining afterwards, is sent exactly the two, and that join brings
  \<open>A\<close> and \<open>B\<close> nothing.
\<close>

theorem chat_then_answer_witness:
  "validate_chat_message sample_library hi = Inr (Some hi_value)
   \<and> distinct (map id_sock (connected two_members))
   \<and> timers (chat_message sample_library sock_A hi ''id-1'' 1000 two_members)
       = [(2000, Ai_response (''session:'' @ s1) hi_value)]
   \<and> map_sum id (received ''B'')
        (ai_response (''session:'' @ s1) hi_value ''id-2'' 2000
           (chat_message sample_library sock_A hi ''id-1'' 1000 two_members))
      = Inr [Session_history s1 [], Session_joined s1,
             Chat_message_event (hi_message ''id-1'' 1000),
             Chat_message_event (hi_answer ''id-2'' 2000)]
   \<and> map_sum id (\<lambda>st. (received ''C'' (join_session sock_C s1 st),
                        received ''A'' (join_session sock_C s1 st) = received ''A'' st,
                        received ''B'' (join_session sock_C s1 st) = received ''B'' st))
        (ai_response (''session:'' @ s1) hi_value ''id-2'' 2000
           (chat_message sample_library sock_A hi ''id-1'' 1000 two_members))
      = Inr ([Session_history s1 [hi_message ''id-1'' 1000, hi_answer ''id-2'' 2000],
              Session_joined s1], True, True)"
proof -
  have d: "distinct (map id_sock (connected two_members))"
    by (simp add: two_members_connected sock_A_def sock_B_def)
  from chat_then_answer[OF hi_valid d, of sock_A "''id-1''" 1000 "''id-2''" 2000]
  obtain st' where
    tm: "timers (chat_message sample_library sock_A hi ''id-1'' 1000 two_members)
           = timers two_members @ [(1000 + 1000, Ai_response (''session:'' @ sessionId hi_value) hi_value)]"
    and run: "ai_response (''session:'' @ sessionId hi_value) hi_value ''id-2'' 2000
           (chat_message sample_library sock_A hi ''id-1'' 1000 two_members) = Inr st'"
    and rec: "\<And>c. received c st' = received c two_members @
          (if c \<in> set (recipients (''session:'' @ sessionId hi_value) two_members)
           then (if c = id_sock sock_A then [Chat_message_event (hi_answer ''id-2'' 2000)]
                 else [Chat_message_event (hi_message ''id-1'' 1000), Chat_message_event (hi_answer ''id-2'' 2000)])
           else [])"
    and join: "\<And>j. outbox (join_session j (sessionId hi_value) st') =
          outbox st' @
            [(id_sock j, Session_history (sessionId hi_value)
               (slice_last 50 ((case map_of (messageHistory two_members) (''session:'' @ sessionId hi_value) of None \<Rightarrow> [] | Some h \<Rightarrow> h)
                  @ [hi_message ''id-1'' 1000, hi_answer ''id-2'' 2000]))),
             (id_sock j, Session_joined (sessionId hi_value))]"
    by (auto simp add: hi_message_def hi_answer_def hi_value_def sock_A_def)
  have t: "timers (chat_message sample_library sock_A hi ''id-1'' 1000 two_members)
       = [(2000, Ai_response (''session:'' @ s1) hi_value)]"
    using tm by (simp add: two_members_timers hi_value_def)
  have run': "ai_response (''session:'' @ s1) hi_value ''id-2'' 2000
           (chat_message sample_library sock_A hi ''id-1'' 1000 two_members) = Inr st'"
    using run by (simp add: hi_value_def)
  have b: "received ''B'' st' = [Session_history s1 [], Session_joined s1,
             Chat_message_event (hi_message ''id-1'' 1000),
             Chat_message_event (hi_answer ''id-2'' 2000)]"
    by (simp add: rec[of "''B''"] two_members_recipients[simplified] two_members_received
        sock_A_def hi_value_def)
  have c0: "received ''C'' st' = []"
    by (simp add: rec[of "''C''"] two_members_recipients[simplified] two_members_received
        hi_value_def)
  have j: "outbox (join_session sock_C s1 st') =
      outbox st' @ [(''C'', Session_history s1 [hi_message ''id-1'' 1000, hi_answer ''id-2'' 2000]),
                    (''C'', Session_joined s1)]"
    using join[of sock_C]
    by (simp add: two_members_history sock_C_def hi_value_def slice_last_def)
  have c: "received ''C'' (join_session sock_C s1 st') =
      [Session_history s1 [hi_message ''id-1'' 1000, hi_answer ''id-2'' 2000], Session_joined s1]"
    using c0 by (simp add: received_def j)
  have a': "received ''A'' (join_session sock_C s1 st') = received ''A'' st'"
    by (simp add: received_def j)
  have b': "received ''B'' (join_session sock_C s1 st') = received ''B'' st'"
    by (simp add: received_def j)
  from hi_valid d t run' b c a' b' show ?thesis by simp
qed

text \<open>
  Against C1 as the spec words it (every member, the sender included,
  receives the message): in the same run, with the timer fired by the
  scheduler, the sender \<open>A\<close>, a member of the room, has received its join
  events and the answer, and no copy of its own message.
\<close>

theorem chat_sender_counterexample:
  "map_sum id (received ''A'')
     (run_timer ''id-2'' 2000 (chat_message sample_library sock_A hi ''id-1'' 1000 two_members))
   = Inr [Session_history s1 [], Session_joined s1, Chat_message_event (hi_answer ''id-2'' 2000)]"
proof -
  have due: "(1000::int) + 1000 \<le> 2000" by simp
  show ?thesis
    by (simp add: chat_answer_run[OF hi_valid two_members_timers due] received_def
        two_members_recipients[simplified] two_members_outbox hi_value_def hi_answer_def
        sock_A_def)
qed

section \<open>Connections without a credential\<close>

text \<open>
  Claim C2, as the code has it.  A handshake with no credential (no token, or
  an empty one) is refused exactly when \<open>NODE_ENV\<close> is set to a non-empty
  value other than \<open>development\<close>; the connection attempt then ends with
  "Authentication required" and leaves the state as it was.  With
  \<open>NODE_ENV\<close> unset, empty or \<open>development\<close> the handshake is accepted under
  the provisional identity \<open>anonymous_\<close> followed by a fresh uuid, marked not
  authenticated.
\<close>

theorem missing_credential:
  assumes "\<not> truthy (handshake_token h)"
  shows "authentication lib env h sk uuid =
           (if env_NODE_ENV env \<in> {None, Some [], Some ''development''}
            then Inr \<lparr>id_sock = sk, userId = ''anonymous_'' @ uuid, userEmail = None,
                      isAuthenticated = False\<rparr>
            else Inl ''Authentication required'')
       \<and> (env_NODE_ENV env \<notin> {None, Some [], Some ''development''} \<longrightarrow>
            connect lib env h sk uuid now st = (Some ''Authentication required'', st))"
  using assms
  by (auto simp add: authentication_def connect_def NODE_ENV_def or_default_def
      split: option.splits)

theorem missing_credential_witness:
  "\<not> truthy (handshake_token no_credential)
   \<and> env_NODE_ENV production_env \<notin> {None, Some [], Some ''development''}
   \<and> authentication sample_library production_env no_credential ''A'' ''u1''
       = Inl ''Authentication required''
   \<and> connect sample_library production_env no_credential ''A'' ''u1'' 0 initial_state
       = (Some ''Authentication required'', initial_state)"
proof -
  have t: "\<not> truthy (handshake_token no_credential)"
    by (simp add: handshake_token_def no_credential_def truthy_def)
  have e: "env_NODE_ENV production_env \<notin> {None, Some [], Some ''development''}"
    by (simp add: production_env_def)
  from missing_credential[OF t, of sample_library production_env "''A''" "''u1''" 0 initial_state] t e
  show ?thesis by simp
qed

text \<open>
  Against C2 as the spec words it (no acceptance without an explicit opt-in):
  with nothing set in the environment the handshake without a credential is
  accepted as \<open>anonymous_u1\<close> and the connection attempt ends with no error.
\<close>

theorem default_mode_counterexample:
  "env_NODE_ENV default_env = None
   \<and> authentication sample_library default_env no_credential ''A'' ''u1''
       = Inr \<lparr>id_sock = ''A'', userId = ''anonymous_u1'', userEmail = None, isAuthenticated = False\<rparr>
   \<and> fst (connect sample_library default_env no_credential ''A'' ''u1'' 0 initial_state) = None"
  by (simp add: authentication_def connect_def consume_def points_def handshake_token_def truthy_def
      no_credential_def default_env_def NODE_ENV_def or_default_def initial_state_def)

section \<open>Chat messages and the rate limiter\<close>

text \<open>
  Claim C3 at its failing input: connection \<open>A\<close> sends 101 valid chat
  messages within 101 milliseconds.  The limiter is not touched, all 101
  messages are stored in the session's history and delivered to \<open>B\<close>, and
  \<open>A\<close> receives nothing, so no error either.
\<close>

theorem chat_burst_accepted:
  "limiter (send_all sample_library sock_A hi burst two_members) = limiter two_members
   \<and> map_option length
       (map_of (messageHistory (send_all sample_library sock_A hi burst two_members)) (''session:'' @ s1))
       = Some 101
   \<and> received ''B'' (send_all sample_library sock_A hi burst two_members) =
       received ''B'' two_members @
         map (\<lambda>(uuid, now). Chat_message_event (hi_message uuid now)) burst
   \<and> received ''A'' (send_all sample_library sock_A hi burst two_members) = received ''A'' two_members
   \<and> length burst = 101"
proof -
  have d: "distinct (map id_sock (connected two_members))"
    by (simp add: two_members_connected sock_A_def sock_B_def)
  have len: "length burst = 101" by (simp add: burst_def)
  then have ne: "burst \<noteq> []" by auto
  have h: "map_option length
       (map_of (messageHistory (send_all sample_library sock_A hi burst two_members)) (''session:'' @ s1))
       = Some 101"
    using ne len
    by (simp add: history_send_all[OF hi_valid] map_of_foldl_push[simplified] two_members_history hi_value_def)
  have b: "received ''B'' (send_all sample_library sock_A hi burst two_members) =
       received ''B'' two_members @
         map (\<lambda>(uuid, now). Chat_message_event (hi_message uuid now)) burst"
    by (simp add: received_send_all[OF hi_valid d] two_members_recipients[simplified] hi_value_def
        hi_message_def sock_A_def)
  have a: "received ''A'' (send_all sample_library sock_A hi burst two_members) = received ''A'' two_members"
    by (simp add: received_send_all[OF hi_valid d] two_members_recipients[simplified] hi_value_def
        sock_A_def)
  from limiter_send_all h b a len show ?thesis by simp
qed

section \<open>The last member leaves\<close>

text \<open>
  Claim C4, as the code has it.  When the only member of a session room
  disconnects, the room's entry is deleted from \<open>activeSessions\<close>, and the
  next join for the same id creates a fresh member set that holds the joiner
  alone.  The history is stored apart from the membership and the disconnect
  handler does not touch it: the joiner is sent the last 50 events still
  stored for the session.  A project room keeps no history; after its only
  member disconnects its entry is gone too, and the next joiner gets a fresh
  member set and the confirmation, nothing else.
\<close>

theorem last_member_leaves:
  assumes ds: "distinct (map fst (activeSessions st))"
    and last: "map_of (activeSessions st) sid = Some {userId sock}"
    and sid: "sid \<noteq> []"
  shows "map_of (activeSessions (disconnect sock st)) sid = None
       \<and> map_of (activeSessions (join_session c sid (disconnect sock st))) sid = Some {userId c}
       \<and> messageHistory (disconnect sock st) = messageHistory st
       \<and> received (id_sock c) (join_session c sid (disconnect sock st)) =
           received (id_sock c) st @
             [Session_history sid
                (slice_last 50 (case map_of (messageHistory st) (''session:'' @ sid) of
                                  None \<Rightarrow> [] | Some h \<Rightarrow> h)),
              Session_joined sid]
       \<and> (distinct (map fst (activeProjects st)) \<and> map_of (activeProjects st) pid = Some {userId sock}
            \<and> pid \<noteq> [] \<longrightarrow>
              map_of (activeProjects (disconnect sock st)) pid = None
            \<and> map_of (activeProjects (join_project c pid (disconnect sock st))) pid = Some {userId c}
            \<and> received (id_sock c) (join_project c pid (disconnect sock st)) =
                received (id_sock c) st @ [Project_joined pid])"
proof -
  have gone: "map_of (activeSessions (disconnect sock st)) sid = None"
    using ds last by (simp add: disconnect_def map_of_remove_user)
  have fresh: "map_of (activeSessions (join_session c sid (disconnect sock st))) sid = Some {userId c}"
    using sid gone by (simp add: join_session_def Let_def socket_emit_def socket_join_def map_of_track)
  have hist: "messageHistory (disconnect sock st) = messageHistory st"
    by (simp add: disconnect_def)
  have replay: "received (id_sock c) (join_session c sid (disconnect sock st)) =
           received (id_sock c) st @
             [Session_history sid
                (slice_last 50 (case map_of (messageHistory st) (''session:'' @ sid) of
                                  None \<Rightarrow> [] | Some h \<Rightarrow> h)),
              Session_joined sid]"
    using sid
    by (simp add: join_session_def Let_def socket_emit_def socket_join_def received_def disconnect_def)
  have project: "map_of (activeProjects (disconnect sock st)) pid = None
            \<and> map_of (activeProjects (join_project c pid (disconnect sock st))) pid = Some {userId c}
            \<and> received (id_sock c) (join_project c pid (disconnect sock st)) =
                received (id_sock c) st @ [Project_joined pid]"
    if dp: "distinct (map fst (activeProjects st))"
      and lastp: "map_of (activeProjects st) pid = Some {userId sock}" and pid: "pid \<noteq> []"
  proof -
    have g: "map_of (activeProjects (disconnect sock st)) pid = None"
      using dp lastp by (simp add: disconnect_def map_of_remove_user)
    have f: "map_of (activeProjects (join_project c pid (disconnect sock st))) pid = Some {userId c}"
      using pid g by (simp add: join_project_def Let_def socket_emit_def socket_join_def map_of_track)
    have r: "received (id_sock c) (join_project c pid (disconnect sock st)) =
                received (id_sock c) st @ [Project_joined pid]"
      using pid
      by (simp add: join_project_def Let_def socket_emit_def socket_join_def received_def disconnect_def)
    from g f r show ?thesis by simp
  qed
  from gone fresh hist replay project show ?thesis by blast
qed

text \<open>
  The theorem at work: \<open>A\<close>, alone in session \<open>s1\<close> and project \<open>p1\<close>, sends
  \<open>hi\<close> and disconnects; \<open>C\<close> then joins.
\<close>

theorem last_member_leaves_witness:
  "distinct (map fst (activeSessions (chat_message sample_library sock_A hi ''id-1'' 1000 one_member)))
   \<and> map_of (activeSessions (chat_message sample_library sock_A hi ''id-1'' 1000 one_member)) s1
       = Some {userId sock_A}
   \<and> s1 \<noteq> []
   \<and> distinct (map fst (activeProjects (chat_message sample_library sock_A hi ''id-1'' 1000 one_member)))
   \<and> map_of (activeProjects (chat_message sample_library sock_A hi ''id-1'' 1000 one_member)) ''p1''
       = Some {userId sock_A}
   \<and> map_of (activeSessions
        (disconnect sock_A (chat_message sample_library sock_A hi ''id-1'' 1000 one_member))) s1 = None
   \<and> map_of (activeSessions (join_session sock_C s1
        (disconnect sock_A (chat_message sample_library sock_A hi ''id-1'' 1000 one_member)))) s1
       = Some {''carol''}
   \<and> received ''C'' (join_session sock_C s1
        (disconnect sock_A (chat_message sample_library sock_A hi ''id-1'' 1000 one_member)))
       = [Session_history s1 [hi_message ''id-1'' 1000], Session_joined s1]
   \<and> map_of (activeProjects
        (disconnect sock_A (chat_message sample_library sock_A hi ''id-1'' 1000 one_member))) ''p1'' = None
   \<and> received ''C'' (join_project sock_C ''p1''
        (disconnect sock_A (chat_message sample_library sock_A hi ''id-1'' 1000 one_member)))
       = [Project_joined ''p1'']"
proof -
  let ?st = "chat_message sample_library sock_A hi ''id-1'' 1000 one_member"
  have d: "distinct (map fst (activeSessions ?st))" by (simp add: after_hi_state)
  have l: "map_of (activeSessions ?st) s1 = Some {userId sock_A}"
    unfolding after_hi_state by (simp add: sock_A_def)
  have dp: "distinct (map fst (activeProjects ?st))" by (simp add: after_hi_state)
  have lp: "map_of (activeProjects ?st) ''p1'' = Some {userId sock_A}"
    unfolding after_hi_state by (simp add: sock_A_def)
  have p: "''p1'' \<noteq> []" by simp
  note t = last_member_leaves[OF d l s1_nonempty, of sock_C "''p1''"]
  from t have sess: "map_of (activeSessions (disconnect sock_A ?st)) s1 = None
     \<and> map_of (activeSessions (join_session sock_C s1 (disconnect sock_A ?st))) s1 = Some {''carol''}
     \<and> received ''C'' (join_session sock_C s1 (disconnect sock_A ?st))
         = [Session_history s1 [hi_message ''id-1'' 1000], Session_joined s1]"
    by (simp add: after_hi_state sock_C_def slice_last_def)
  from t dp lp p have "map_of (activeProjects (disconnect sock_A ?st)) ''p1'' = None
     \<and> received (id_sock sock_C) (join_project sock_C ''p1'' (disconnect sock_A ?st))
         = received (id_sock sock_C) ?st @ [Project_joined ''p1'']"
    by blast
  then have proj: "map_of (activeProjects (disconnect sock_A ?st)) ''p1'' = None
     \<and> received ''C'' (join_project sock_C ''p1'' (disconnect sock_A ?st)) = [Project_joined ''p1'']"
    by (simp add: after_hi_state sock_C_def)
  from d l s1_nonempty dp lp sess proj show ?thesis by blast
qed

text \<open>
  Against C4 as the spec words it (the fresh room replays nothing): \<open>A\<close>,
  the only member of \<open>s1\<close>, sends \<open>hi\<close> and disconnects, which deletes the
  room; \<open>C\<close> connects and joins \<open>s1\<close> and is sent \<open>A\<close>'s message.
\<close>

theorem history_survives_counterexample:
  "map_of (activeSessions
      (disconnect sock_A (chat_message sample_library sock_A hi ''id-1'' 1000 one_member))) s1 = None
   \<and> received ''C'' (join_session sock_C s1 (connection sock_C
        (disconnect sock_A (chat_message sample_library sock_A hi ''id-1'' 1000 one_member))))
      = [Session_history s1 [hi_message ''id-1'' 1000], Session_joined s1]"
  by (simp add: chat_message_valid[OF hi_valid] one_member_state history_push_def received_def
      one_member_recipients[simplified] s1_nonempty
      hi_value_def hi_message_def sock_A_def sock_C_def disconnect_def join_session_def connection_def
      socket_join_def socket_emit_def slice_last_def Let_def)

section \<open>What an accepted event carries\<close>

text \<open>
  Claim C5, as the code has it.  An accepted event carries no sequence
  number.  The server gives it an id (the next uuid) and a timestamp (the
  clock reading), and its place in the acceptance order is its place in the
  session's history: a valid chat message is stored as the last entry, and
  its answer, when the timer fires, after it.  When the stored timestamps
  are in order and none is later than the clock, and the clock has not gone
  back when the answer is made, the timestamps of the history stay in
  non-decreasing order.
\<close>

theorem accepted_events_order:
  fixes now now' :: int
  assumes valid: "validate_chat_message lib data = Inr (Some v)"
    and old: "old = (case map_of (messageHistory st) (''session:'' @ sessionId v) of
                       None \<Rightarrow> [] | Some h \<Rightarrow> h)"
    and sorted_old: "sorted (map timestamp old)"
    and clock: "\<forall>m \<in> set old. timestamp m \<le> now"
    and later: "now \<le> now'"
  shows "\<exists>st' m a.
           ai_response (''session:'' @ sessionId v) v uuid' now'
             (chat_message lib sock data uuid now st) = Inr st'
         \<and> map_of (messageHistory st') (''session:'' @ sessionId v) = Some (old @ [m, a])
         \<and> id_m m = uuid \<and> timestamp m = now \<and> userId_m m = userId sock
         \<and> id_m a = uuid' \<and> timestamp a = now' \<and> userId_m a = ''claude-ai''
         \<and> sorted (map timestamp (old @ [m, a]))"
  using old sorted_old clock later
  by (auto simp add: chat_message_valid[OF valid] ai_response_def Let_def map_of_history_push
      io_to_emit_def AList.update_conv' sorted_append)

theorem accepted_events_order_witness:
  "validate_chat_message sample_library hi = Inr (Some hi_value)
   \<and> sorted (map timestamp ([] :: message list))
   \<and> (1000::int) \<le> 2000
   \<and> map_option (map timestamp)
        (case ai_response (''session:'' @ s1) hi_value ''id-2'' 2000
                (chat_message sample_library sock_A hi ''id-1'' 1000 two_members) of
           Inl e \<Rightarrow> None
         | Inr st' \<Rightarrow> map_of (messageHistory st') (''session:'' @ s1))
      = Some [1000, 2000]"
proof -
  have o: "[] = (case map_of (messageHistory two_members) (''session:'' @ sessionId hi_value) of
                       None \<Rightarrow> [] | Some h \<Rightarrow> h)"
    by (simp add: two_members_history)
  have s: "sorted (map timestamp ([] :: message list))" by simp
  have c: "\<forall>m \<in> set ([] :: message list). timestamp m \<le> 1000" by simp
  have l: "(1000::int) \<le> 2000" by simp
  from accepted_events_order[OF hi_valid o s c l, of "''id-2''" sock_A "''id-1''"]
  obtain st' m a where
    "ai_response (''session:'' @ sessionId hi_value) hi_value ''id-2'' 2000
        (chat_message sample_library sock_A hi ''id-1'' 1000 two_members) = Inr st'"
    "map_of (messageHistory st') (''session:'' @ sessionId hi_value) = Some ([] @ [m, a])"
    "timestamp m = 1000" "timestamp a = 2000"
    by blast
  then have "map_option (map timestamp)
        (case ai_response (''session:'' @ s1) hi_value ''id-2'' 2000
                (chat_message sample_library sock_A hi ''id-1'' 1000 two_members) of
           Inl e \<Rightarrow> None
         | Inr st' \<Rightarrow> map_of (messageHistory st') (''session:'' @ s1))
      = Some [1000, 2000]"
    by (simp add: hi_value_def)
  with hi_valid s l show ?thesis by simp
qed

text \<open>
  Against C5 as the spec words it (a number on every event, strictly
  increasing in its room): the only ordered stamp the server puts on an event
  is the timestamp, and two messages accepted within the same millisecond,
  one from \<open>A\<close> and then one from \<open>B\<close>, are stored with the same one.
\<close>

theorem equal_stamps_counterexample:
  "map_option (\<lambda>h. (map id_m h, map timestamp h, sorted_wrt (<) (map timestamp h)))
     (map_of (messageHistory
        (chat_message sample_library sock_B hi ''id-2'' 1000
          (chat_message sample_library sock_A hi ''id-1'' 1000 two_members)))
        (''session:'' @ s1))
   = Some ([''id-1'', ''id-2''], [1000, 1000], False)"
  by (simp add: chat_message_valid[OF hi_valid] map_of_history_push two_members_history
      hi_value_def)

section \<open>Bodies that fail validation\<close>

text \<open>
  Claim C6.  In each of the four handlers that validate the body against a
  schema (chat message, terminal command, file update, notification), a body
  that fails the validation changes nothing in the state but the outbox,
  which gains one event: the error, with the validation's details, addressed
  to the sender.  So nothing is stored in a history, no timer is set, and no
  other connection receives anything.
\<close>

theorem validation_isolation:
  "(validate_chat_message lib data = Inl e \<longrightarrow>
      chat_message lib sock data uuid now st =
        st\<lparr>outbox := outbox st @
             [(id_sock sock, Error_event ''Invalid message format'' (Some e))]\<rparr>)
 \<and> (validate_terminal_command lib data = Inl e \<longrightarrow>
      terminal_command lib sock data uuid now st =
        st\<lparr>outbox := outbox st @
             [(id_sock sock, Error_event ''Invalid command format'' (Some e))]\<rparr>)
 \<and> (validate_file_update lib data = Inl e \<longrightarrow>
      file_update_handler lib sock data uuid now st =
        st\<lparr>outbox := outbox st @
             [(id_sock sock, Error_event ''Invalid file update format'' (Some e))]\<rparr>)
 \<and> (validate_tts_notification lib data = Inl e \<longrightarrow>
      tts_notification_handler lib sock data uuid now st =
        st\<lparr>outbox := outbox st @
             [(id_sock sock, Error_event ''Invalid TTS notification format'' (Some e))]\<rparr>)"
  by (simp add: chat_message_def terminal_command_def file_update_handler_def
      tts_notification_handler_def socket_emit_def)

text \<open>A body with no key fails all four schemas, each at its first required key.\<close>

theorem validation_isolation_witness:
  "validate_chat_message sample_library empty_body = Inl (Joi_error ''content'' ''any.required'')
   \<and> chat_message sample_library sock_A empty_body ''id-1'' 1000 two_members =
       two_members\<lparr>outbox := outbox two_members @
         [(id_sock sock_A, Error_event ''Invalid message format'' (Some (Joi_error ''content'' ''any.required'')))]\<rparr>
   \<and> validate_terminal_command sample_library empty_body = Inl (Joi_error ''command'' ''any.required'')
   \<and> terminal_command sample_library sock_A empty_body ''id-1'' 1000 two_members =
       two_members\<lparr>outbox := outbox two_members @
         [(id_sock sock_A, Error_event ''Invalid command format'' (Some (Joi_error ''command'' ''any.required'')))]\<rparr>
   \<and> validate_file_update sample_library empty_body = Inl (Joi_error ''filePath'' ''any.required'')
   \<and> file_update_handler sample_library sock_A empty_body ''id-1'' 1000 two_members =
       two_members\<lparr>outbox := outbox two_members @
         [(id_sock sock_A, Error_event ''Invalid file update format'' (Some (Joi_error ''filePath'' ''any.required'')))]\<rparr>
   \<and> validate_tts_notification sample_library empty_body = Inl (Joi_error ''message'' ''any.required'')
   \<and> tts_notification_handler sample_library sock_A empty_body ''id-1'' 1000 two_members =
       two_members\<lparr>outbox := outbox two_members @
         [(id_sock sock_A, Error_event ''Invalid TTS notification format'' (Some (Joi_error ''message'' ''any.required'')))]\<rparr>"
proof -
  have c: "validate_chat_message sample_library empty_body = Inl (Joi_error ''content'' ''any.required'')"
    by (simp add: validate_defs empty_body_def)
  have t: "validate_terminal_command sample_library empty_body = Inl (Joi_error ''command'' ''any.required'')"
    by (simp add: validate_defs empty_body_def)
  have f: "validate_file_update sample_library empty_body = Inl (Joi_error ''filePath'' ''any.required'')"
    by (simp add: validate_defs empty_body_def)
  have n: "validate_tts_notification sample_library empty_body = Inl (Joi_error ''message'' ''any.required'')"
    by (simp add: validate_defs empty_body_def)
  note a = validation_isolation[of sample_library empty_body _ sock_A "''id-1''" 1000 two_members]
  from a[of "Joi_error ''content'' ''any.required''"] a[of "Joi_error ''command'' ''any.required''"]
     a[of "Joi_error ''filePath'' ''any.required''"] a[of "Joi_error ''message'' ''any.required''"]
     c t f n
  show ?thesis by blast
qed

section \<open>Invalid credentials\<close>

text \<open>
  Claim C7.  A handshake that presents a token which \<open>jwt.verify\<close> refuses
  (bad signature, expired, malformed) is rejected with "Invalid
  authentication token" whatever the environment says, so in development mode
  too, and the connection attempt leaves the state as it was.
\<close>

theorem invalid_credential_rejected:
  assumes "handshake_token h = Some token" and "token \<noteq> []"
    and "jwt_verify lib (replace_first ''Bearer '' [] token) (JWT_SECRET env) = None"
  shows "authentication lib env h sk uuid = Inl ''Invalid authentication token''
       \<and> connect lib env h sk uuid now st = (Some ''Invalid authentication token'', st)"
  using assms by (simp add: authentication_def connect_def truthy_def)

text \<open>An expired token in the authorization header, with nothing set in the environment.\<close>

theorem invalid_credential_rejected_witness:
  "handshake_token bad_credential = Some ''Bearer expired-token''
   \<and> NODE_ENV default_env = ''development''
   \<and> jwt_verify sample_library (replace_first ''Bearer '' [] ''Bearer expired-token'')
        (JWT_SECRET default_env) = None
   \<and> authentication sample_library default_env bad_credential ''A'' ''u1''
        = Inl ''Invalid authentication token''
   \<and> connect sample_library default_env bad_credential ''A'' ''u1'' 0 initial_state
        = (Some ''Invalid authentication token'', initial_state)"
proof -
  have t: "handshake_token bad_credential = Some ''Bearer expired-token''"
    by (simp add: handshake_token_def bad_credential_def truthy_def)
  have ne: "''Bearer expired-token'' \<noteq> []" by simp
  have m: "NODE_ENV default_env = ''development''"
    by (simp add: NODE_ENV_def or_default_def default_env_def)
  have v: "jwt_verify sample_library (replace_first ''Bearer '' [] ''Bearer expired-token'')
             (JWT_SECRET default_env) = None"
    by (simp add: sample_library_def)
  from invalid_credential_rejected[OF t ne v, of "''A''" "''u1''" 0 initial_state] t m v
  show ?thesis by simp
qed

section \<open>Replay at join time\<close>

text \<open>
  Claim C8.  After more than 50 events have been pushed on a session's
  history (the push of the chat handler), whatever the history held before, a
  join of that session emits two events, both to the joining socket alone:
  the replay, which holds exactly the 50 most recent of the pushed events in
  the order they were pushed, and the confirmation.
\<close>

theorem replay_bounded:
  assumes sid: "sid \<noteq> []" and many: "50 < length events"
  shows "outbox (join_session sock sid
            (st\<lparr>messageHistory :=
                 foldl (\<lambda>mh e. history_push (''session:'' @ sid) e mh) (messageHistory st) events\<rparr>))
         = outbox st @
             [(id_sock sock, Session_history sid (drop (length events - 50) events)),
              (id_sock sock, Session_joined sid)]
       \<and> length (drop (length events - 50) events) = 50"
proof -
  from many have ne: "events \<noteq> []" by auto
  from many have le: "50 \<le> length events" by simp
  show ?thesis
    using sid ne many
    by (simp add: join_session_def Let_def socket_emit_def socket_join_def map_of_foldl_push
        slice_last_append[OF le])
qed

text \<open>With 101 messages pushed, \<open>C\<close> is sent the last 50 of them.\<close>

theorem replay_bounded_witness:
  "s1 \<noteq> []
   \<and> 50 < length (map (\<lambda>(uuid, now). hi_message uuid now) burst)
   \<and> outbox (join_session sock_C s1
        (two_members\<lparr>messageHistory :=
            foldl (\<lambda>mh e. history_push (''session:'' @ s1) e mh) (messageHistory two_members)
              (map (\<lambda>(uuid, now). hi_message uuid now) burst)\<rparr>))
      = outbox two_members @
          [(''C'', Session_history s1 (map (\<lambda>(uuid, now). hi_message uuid now) (drop 51 burst))),
           (''C'', Session_joined s1)]
   \<and> length (drop 51 burst) = 50"
proof -
  have len: "length burst = 101" by (simp add: burst_def)
  then have m: "50 < length (map (\<lambda>(uuid, now). hi_message uuid now) burst)" by simp
  from replay_bounded[OF s1_nonempty m, of sock_C two_members] s1_nonempty m len
  show ?thesis by (simp add: sock_C_def drop_map)
qed

section \<open>Joining twice\<close>

text \<open>
  Claim C9.  A second join of a session or of a project under the same
  identity, from the same or from another connection of that user, leaves the
  registry as the first join made it; and a second join from the same
  connection leaves Socket.IO's rooms as they were.
\<close>

theorem join_idempotent:
  assumes "userId b = userId a"
  shows "activeSessions (join_session b sid (join_session a sid st))
           = activeSessions (join_session a sid st)
       \<and> activeProjects (join_project b pid (join_project a pid st))
           = activeProjects (join_project a pid st)
       \<and> rooms (join_session a sid (join_session a sid st)) = rooms (join_session a sid st)
       \<and> rooms (join_project a pid (join_project a pid st)) = rooms (join_project a pid st)"
  using assms
  by (simp add: join_session_def join_project_def Let_def socket_emit_def socket_join_def track_idem)

theorem join_idempotent_witness:
  "userId sock_A2 = userId sock_A
   \<and> activeSessions (join_session sock_A2 s1 (join_session sock_A s1 initial_state))
       = [(s1, {''alice''})]
   \<and> activeSessions (join_session sock_A s1 initial_state) = [(s1, {''alice''})]
   \<and> activeProjects (join_project sock_A2 ''p1'' (join_project sock_A ''p1'' initial_state))
       = [(''p1'', {''alice''})]"
proof -
  have u: "userId sock_A2 = userId sock_A" by (simp add: sock_A_def sock_A2_def)
  have one: "activeSessions (join_session sock_A s1 initial_state) = [(s1, {''alice''})]"
    by (simp add: handler_defs sock_A_def s1_def)
  have onep: "activeProjects (join_project sock_A ''p1'' initial_state) = [(''p1'', {''alice''})]"
    by (simp add: handler_defs sock_A_def)
  from join_idempotent[OF u, of s1 initial_state "''p1''"] one onep u show ?thesis by simp
qed

section \<open>Disconnecting\<close>

text \<open>
  Claim C10.  When a connection disconnects, its user is deleted from the
  member set of every session and of every project that has it, and an entry
  whose set held that user alone is deleted from the registry.  This is done
  by user, not by connection: another connection of the same user stays
  open and stays in Socket.IO's rooms, and yet its user is a member of no
  session and of no project afterwards.
\<close>

theorem disconnect_removes_identity:
  assumes ds: "distinct (map fst (activeSessions st))"
    and dp: "distinct (map fst (activeProjects st))"
  shows "map_of (activeSessions (disconnect sock st)) k =
           (case map_of (activeSessions st) k of
              None \<Rightarrow> None
            | Some us \<Rightarrow> if userId sock \<in> us
                then (if us = {userId sock} then None else Some (us - {userId sock}))
                else Some us)
       \<and> map_of (activeProjects (disconnect sock st)) k =
           (case map_of (activeProjects st) k of
              None \<Rightarrow> None
            | Some us \<Rightarrow> if userId sock \<in> us
                then (if us = {userId sock} then None else Some (us - {userId sock}))
                else Some us)
       \<and> (\<forall>s. s \<in> set (connected st) \<and> id_sock s \<noteq> id_sock sock \<and> userId s = userId sock \<longrightarrow>
             s \<in> set (connected (disconnect sock st))
           \<and> (\<forall>r. (id_sock s \<in> rooms (disconnect sock st) r) = (id_sock s \<in> rooms st r))
           \<and> (\<forall>k' us. map_of (activeSessions (disconnect sock st)) k' = Some us \<longrightarrow> userId s \<notin> us)
           \<and> (\<forall>k' us. map_of (activeProjects (disconnect sock st)) k' = Some us \<longrightarrow> userId s \<notin> us))"
proof -
  have s: "map_of (activeSessions (disconnect sock st)) k' =
           (case map_of (activeSessions st) k' of
              None \<Rightarrow> None
            | Some us \<Rightarrow> if userId sock \<in> us
                then (if us = {userId sock} then None else Some (us - {userId sock}))
                else Some us)" for k'
    using ds by (simp add: disconnect_def map_of_remove_user)
  have p: "map_of (activeProjects (disconnect sock st)) k' =
           (case map_of (activeProjects st) k' of
              None \<Rightarrow> None
            | Some us \<Rightarrow> if userId sock \<in> us
                then (if us = {userId sock} then None else Some (us - {userId sock}))
                else Some us)" for k'
    using dp by (simp add: disconnect_def map_of_remove_user)
  have sn: "userId sock \<notin> us" if "map_of (activeSessions (disconnect sock st)) k' = Some us" for k' us
    using that unfolding s by (auto split: option.splits if_splits)
  have pn: "userId sock \<notin> us" if "map_of (activeProjects (disconnect sock st)) k' = Some us" for k' us
    using that unfolding p by (auto split: option.splits if_splits)
  have c: "s \<in> set (connected (disconnect sock st))
           \<and> (\<forall>r. (id_sock s \<in> rooms (disconnect sock st) r) = (id_sock s \<in> rooms st r))"
    if "s \<in> set (connected st)" "id_sock s \<noteq> id_sock sock" for s
    using that by (simp add: disconnect_def)
  show ?thesis
  proof (intro conjI allI impI)
    show "map_of (activeSessions (disconnect sock st)) k =
           (case map_of (activeSessions st) k of
              None \<Rightarrow> None
            | Some us \<Rightarrow> if userId sock \<in> us
                then (if us = {userId sock} then None else Some (us - {userId sock}))
                else Some us)" by (rule s)
    show "map_of (activeProjects (disconnect sock st)) k =
           (case map_of (activeProjects st) k of
              None \<Rightarrow> None
            | Some us \<Rightarrow> if userId sock \<in> us
                then (if us = {userId sock} then None else Some (us - {userId sock}))
                else Some us)" by (rule p)
  next
    fix s assume "s \<in> set (connected st) \<and> id_sock s \<noteq> id_sock sock \<and> userId s = userId sock"
    then show "s \<in> set (connected (disconnect sock st))" using c by blast
  next
    fix s r assume "s \<in> set (connected st) \<and> id_sock s \<noteq> id_sock sock \<and> userId s = userId sock"
    then show "(id_sock s \<in> rooms (disconnect sock st) r) = (id_sock s \<in> rooms st r)"
      using c by blast
  next
    fix s k' us
    assume "s \<in> set (connected st) \<and> id_sock s \<noteq> id_sock sock \<and> userId s = userId sock"
      and "map_of (activeSessions (disconnect sock st)) k' = Some us"
    then show "userId s \<notin> us" using sn by metis
  next
    fix s k' us
    assume "s \<in> set (connected st) \<and> id_sock s \<noteq> id_sock sock \<and> userId s = userId sock"
      and "map_of (activeProjects (disconnect sock st)) k' = Some us"
    then show "userId s \<notin> us" using pn by metis
  qed
qed

text \<open>
  The user \<open>alice\<close> is in session \<open>s1\<close> from two connections.  When the
  first closes, the session's entry is deleted although the second is still
  open and in the session's room.
\<close>

theorem disconnect_removes_identity_witness:
  "distinct (map fst (activeSessions two_devices))
   \<and> distinct (map fst (activeProjects two_devices))
   \<and> map_of (activeSessions two_devices) s1 = Some {''alice''}
   \<and> sock_A2 \<in> set (connected two_devices) \<and> id_sock sock_A2 \<noteq> id_sock sock_A
   \<and> userId sock_A2 = userId sock_A
   \<and> ''A2'' \<in> rooms two_devices (''session:'' @ s1)
   \<and> map_of (activeSessions (disconnect sock_A two_devices)) s1 = None
   \<and> sock_A2 \<in> set (connected (disconnect sock_A two_devices))
   \<and> ''A2'' \<in> rooms (disconnect sock_A two_devices) (''session:'' @ s1)"
proof -
  have ds: "distinct (map fst (activeSessions two_devices))" by (simp add: two_devices_state)
  have dp: "distinct (map fst (activeProjects two_devices))" by (simp add: two_devices_state)
  have m: "map_of (activeSessions two_devices) s1 = Some {''alice''}" by (simp add: two_devices_state)
  have c: "sock_A2 \<in> set (connected two_devices)" by (simp add: two_devices_state)
  have i: "id_sock sock_A2 \<noteq> id_sock sock_A" by (simp add: sock_A_def sock_A2_def)
  have u: "userId sock_A2 = userId sock_A" by (simp add: sock_A_def sock_A2_def)
  have r: "''A2'' \<in> rooms two_devices (''session:'' @ s1)"
    by (simp add: two_devices_state(4)[simplified])
  note t = disconnect_removes_identity[OF ds dp, of sock_A s1]
  from t m have gone: "map_of (activeSessions (disconnect sock_A two_devices)) s1 = None"
    by (simp add: sock_A_def)
  from t c i u have "sock_A2 \<in> set (connected (disconnect sock_A two_devices))
      \<and> (\<forall>r. (id_sock sock_A2 \<in> rooms (disconnect sock_A two_devices) r)
              = (id_sock sock_A2 \<in> rooms two_devices r))"
    by blast
  with r have still: "sock_A2 \<in> set (connected (disconnect sock_A two_devices))
      \<and> ''A2'' \<in> rooms (disconnect sock_A two_devices) (''session:'' @ s1)"
    by (simp add: sock_A2_def)
  from ds dp m c i u r gone still show ?thesis by blast
qed

end
